theory Spec2Isabelle
  imports Complex_Main
begin

section \<open>Python values\<close>

text \<open>
  A Python \<open>str\<close> is a sequence of Unicode code points; \<open>len\<close>, slicing and comparison
  work on code points.  The accented letters and the emoji of the replies are code points
  above 127, so a string is a list of natural numbers, and \<open>u\<close> embeds an ASCII literal.
\<close>

type_synonym pystr = "nat list"

definition u :: "string \<Rightarrow> pystr" where
  "u s = map of_char s"

text \<open>
  A Python \<open>float\<close>: a finite double (carried as its exact real value), an infinity or
  NaN.  \<open>json.loads\<close> produces all four (\<open>Infinity\<close>, \<open>-Infinity\<close> and \<open>NaN\<close> are accepted).
\<close>

datatype pyfloat = Finite real | PosInf | NegInf | NaN

text \<open>
  What \<open>json.loads\<close> returns.  A dict is an association list with distinct keys in
  insertion order; a lookup takes the first entry for the key.
\<close>

datatype jv =
    JNull
  | JBool bool
  | JInt int
  | JFloat pyfloat
  | JStr pystr
  | JList "jv list"
  | JDict "(pystr \<times> jv) list"

datatype exn =
    TypeError | AttributeError | OverflowError | ValueError | UnicodeEncodeError
  | OperationalError

text \<open>\<open>bool(x)\<close>: the truth value Python gives \<open>x\<close> in \<open>if x\<close>, \<open>x and y\<close>, \<open>x or y\<close>.\<close>

fun py_truthy :: "jv \<Rightarrow> bool" where
  "py_truthy JNull = False"
| "py_truthy (JBool b) = b"
| "py_truthy (JInt i) = (i \<noteq> 0)"
| "py_truthy (JFloat f) = (f \<noteq> Finite 0)"
| "py_truthy (JStr s) = (s \<noteq> [])"
| "py_truthy (JList xs) = (xs \<noteq> [])"
| "py_truthy (JDict d) = (d \<noteq> [])"

definition py_or :: "jv \<Rightarrow> jv \<Rightarrow> jv" where
  "py_or x y = (if py_truthy x then x else y)"

text \<open>\<open>d.get(k, dflt)\<close> on a dict.\<close>

definition dict_get :: "(pystr \<times> jv) list \<Rightarrow> pystr \<Rightarrow> jv \<Rightarrow> jv" where
  "dict_get d k dflt = (case map_of d k of None \<Rightarrow> dflt | Some v \<Rightarrow> v)"

text \<open>\<open>x.get(k, dflt)\<close> on any value: only a dict has \<open>get\<close>; on anything else Python raises
  AttributeError.\<close>

fun py_get :: "jv \<Rightarrow> pystr \<Rightarrow> jv \<Rightarrow> exn + jv" where
  "py_get (JDict d) k dflt = Inr (dict_get d k dflt)"
| "py_get _ k dflt = Inl AttributeError"

text \<open>\<open>d[k] = v\<close> on a dict: replaces the value in place, or appends a new key.\<close>

fun dict_set :: "(pystr \<times> jv) list \<Rightarrow> pystr \<Rightarrow> jv \<Rightarrow> (pystr \<times> jv) list" where
  "dict_set [] k v = [(k, v)]"
| "dict_set ((k', v') # d) k v = (if k' = k then (k, v) # d else (k', v') # dict_set d k v)"

fun isinstance_str :: "jv \<Rightarrow> bool" where
  "isinstance_str (JStr s) = True"
| "isinstance_str _ = False"

text \<open>\<open>isinstance(x, (int, float))\<close>: \<open>bool\<close> is a subclass of \<open>int\<close>.\<close>

fun isinstance_int_float :: "jv \<Rightarrow> bool" where
  "isinstance_int_float (JBool b) = True"
| "isinstance_int_float (JInt i) = True"
| "isinstance_int_float (JFloat f) = True"
| "isinstance_int_float _ = False"

fun str_of :: "jv \<Rightarrow> pystr" where
  "str_of (JStr s) = s"
| "str_of _ = []"

text \<open>
  \<open>x >= c\<close> for a numeric constant \<open>c\<close>: Python compares an int (or bool) with a float by
  value; NaN compares false; any other operand raises TypeError.
\<close>

fun py_ge :: "jv \<Rightarrow> real \<Rightarrow> exn + bool" where
  "py_ge (JBool b) c = Inr (c \<le> (if b then 1 else 0))"
| "py_ge (JInt i) c = Inr (c \<le> of_int i)"
| "py_ge (JFloat (Finite r)) c = Inr (c \<le> r)"
| "py_ge (JFloat PosInf) c = Inr True"
| "py_ge (JFloat NegInf) c = Inr False"
| "py_ge (JFloat NaN) c = Inr False"
| "py_ge _ c = Inl TypeError"

text \<open>\<open>int(x)\<close> on a number: truncation toward zero; an infinity or NaN raises.\<close>

fun py_int :: "jv \<Rightarrow> exn + int" where
  "py_int (JBool b) = Inr (if b then 1 else 0)"
| "py_int (JInt i) = Inr i"
| "py_int (JFloat (Finite r)) = Inr (if 0 \<le> r then \<lfloor>r\<rfloor> else \<lceil>r\<rceil>)"
| "py_int (JFloat PosInf) = Inl OverflowError"
| "py_int (JFloat NegInf) = Inl OverflowError"
| "py_int (JFloat NaN) = Inl ValueError"
| "py_int _ = Inl TypeError"

text \<open>The double nearest to the literal \<open>0.8\<close> (\<open>0x1.999999999999ap-1\<close>).\<close>

definition float_0_8 :: real where
  "float_0_8 = 3602879701896397 / 4503599627370496"

subsection \<open>String operations\<close>

fun str_nat :: "nat \<Rightarrow> pystr" where
  "str_nat n = (if n < 10 then [48 + n] else str_nat (n div 10) @ [48 + n mod 10])"

declare str_nat.simps [simp del]

text \<open>\<open>str(i)\<close> and \<open>f"{i}"\<close> for an int.\<close>

definition str_int :: "int \<Rightarrow> pystr" where
  "str_int i = (if i < 0 then 45 # str_nat (nat (- i)) else str_nat (nat i))"

text \<open>\<open>f"{i:,}"\<close>: the digits in groups of three from the right, separated by commas.\<close>

fun group3 :: "pystr \<Rightarrow> pystr" where
  "group3 (a # b # c # d # rest) = a # b # c # 44 # group3 (d # rest)"
| "group3 xs = xs"

definition format_comma :: "int \<Rightarrow> pystr" where
  "format_comma i =
     (if i < 0 then 45 # rev (group3 (rev (str_nat (nat (- i)))))
      else rev (group3 (rev (str_nat (nat i)))))"

definition format_fcfa :: "int \<Rightarrow> pystr" where
  "format_fcfa montant =
     (let formatted = map (\<lambda>c. if c = 44 then 32 else c) (format_comma montant)
      in formatted @ u '' FCFA'')"

fun join :: "pystr \<Rightarrow> pystr list \<Rightarrow> pystr" where
  "join sep [] = []"
| "join sep [x] = x"
| "join sep (x # y # xs) = x @ sep @ join sep (y # xs)"

definition startswith :: "pystr \<Rightarrow> pystr \<Rightarrow> bool" where
  "startswith s p = (take (length p) s = p)"

definition endswith :: "pystr \<Rightarrow> pystr \<Rightarrow> bool" where
  "endswith s p = (length p \<le> length s \<and> drop (length s - length p) s = p)"

text \<open>The characters \<open>str.strip()\<close> removes: the code points for which \<open>str.isspace\<close> holds.\<close>

definition py_isspace :: "nat \<Rightarrow> bool" where
  "py_isspace c =
     ((9 \<le> c \<and> c \<le> 13) \<or> (28 \<le> c \<and> c \<le> 32) \<or> c = 133 \<or> c = 160 \<or> c = 5760
      \<or> (8192 \<le> c \<and> c \<le> 8202) \<or> c = 8232 \<or> c = 8233 \<or> c = 8239 \<or> c = 8287 \<or> c = 12288)"

definition py_strip :: "pystr \<Rightarrow> pystr" where
  "py_strip s = rev (dropWhile py_isspace (rev (dropWhile py_isspace s)))"

text \<open>
  \<open>re.search(r'\{.*\}', text, re.DOTALL)\<close>: the leftmost \<open>{\<close> that has a \<open>}\<close> after it,
  up to the last \<open>}\<close> of the text; \<open>None\<close> when there is no such pair.
\<close>

definition re_search_braces :: "pystr \<Rightarrow> pystr option" where
  "re_search_braces text =
     (case dropWhile (\<lambda>c. c \<noteq> 123) text of
        [] \<Rightarrow> None
      | b # inner \<Rightarrow>
          if 125 \<in> set inner
          then Some (b # rev (dropWhile (\<lambda>c. c \<noteq> 125) (rev inner)))
          else None)"

definition ascii_lower :: "nat \<Rightarrow> nat" where
  "ascii_lower c = (if 65 \<le> c \<and> c \<le> 90 then c + 32 else c)"

text \<open>
  SQLite's \<open>lower()\<close> and \<open>LIKE\<close> (the engine of \<open>database.py\<close>): both fold the ASCII
  letters only; in a pattern \<open>%\<close> stands for any run of characters, \<open>_\<close> for any single
  character, and there is no escape character.  \<open>lower()\<close> keeps the whole text; \<open>LIKE\<close> reads
  the pattern and the text up to their first NUL character.
\<close>

definition sqlite_lower :: "pystr \<Rightarrow> pystr" where
  "sqlite_lower s = map ascii_lower s"

fun sql_like :: "pystr \<Rightarrow> pystr \<Rightarrow> bool" where
  "sql_like [] [] = True"
| "sql_like [] (c # cs) = False"
| "sql_like (p # ps) [] = (p = 37 \<and> sql_like ps [])"
| "sql_like (p # ps) (c # cs) =
     (if p = 37 then sql_like ps (c # cs) \<or> sql_like (p # ps) cs
      else (p = 95 \<or> ascii_lower p = ascii_lower c) \<and> sql_like ps cs)"

text \<open>\<open>column.like(pattern)\<close>: both texts end at their first NUL.\<close>

definition like :: "pystr \<Rightarrow> pystr \<Rightarrow> bool" where
  "like column pattern =
     sql_like (takeWhile (\<lambda>c. c \<noteq> 0) pattern) (takeWhile (\<lambda>c. c \<noteq> 0) column)"

text \<open>
  What the engine accepts as a parameter of a statement.  An int outside 64 bits makes the
  driver raise OverflowError; a string that holds a lone surrogate (\<open>U+D800\<close> to \<open>U+DFFF\<close>,
  which \<open>json.loads\<close> produces from an escape such as \<open>"\ud800"\<close>) cannot be encoded in
  UTF-8 and raises UnicodeEncodeError.  The parameters are bound in order, and the first
  that fails raises.
\<close>

datatype param = PInt int | PStr pystr

definition sqlite_integer :: "int \<Rightarrow> bool" where
  "sqlite_integer i = (- 9223372036854775808 \<le> i \<and> i \<le> 9223372036854775807)"

definition utf8_encodable :: "pystr \<Rightarrow> bool" where
  "utf8_encodable s = list_all (\<lambda>c. \<not> (55296 \<le> c \<and> c \<le> 57343)) s"

fun bind_error :: "param list \<Rightarrow> exn option" where
  "bind_error [] = None"
| "bind_error (PInt i # ps) = (if sqlite_integer i then bind_error ps else Some OverflowError)"
| "bind_error (PStr s # ps) = (if utf8_encodable s then bind_error ps else Some UnicodeEncodeError)"

text \<open>The length of a string in UTF-8, in bytes; \<open>LIKE\<close> refuses a pattern of more than 50000
  bytes (\<open>SQLITE_MAX_LIKE_PATTERN_LENGTH\<close>) each time it is evaluated.\<close>

definition utf8_size :: "nat \<Rightarrow> nat" where
  "utf8_size c = (if c < 128 then 1 else if c < 2048 then 2 else if c < 65536 then 3 else 4)"

definition utf8_length :: "pystr \<Rightarrow> nat" where
  "utf8_length s = sum_list (map utf8_size s)"

section \<open>The intent extractor (\<open>gemini_service.py\<close>)\<close>

text \<open>
  The prompt of \<open>detect_transaction_intent\<close> is an f-string with three holes in a fixed
  text chosen by the language; it is carried as the language flag and the two fillers.
\<close>

record prompt =
  pr_is_english :: bool
  pr_message :: pystr
  pr_produits_list :: pystr

text \<open>
  What the code gets from outside: whether \<open>GOOGLE_API_KEY\<close> is set (\<open>get_client\<close>), the
  language model (\<open>generate_content\<close> raises, left, with the text of the exception, or
  answers with a response whose \<open>.text\<close> may be \<open>None\<close>), \<open>json.loads\<close> (raises, left, or
  returns a value) and \<open>str.lower\<close> on strings that are not plain ASCII.
\<close>

record env =
  client_configured :: bool
  generate_content :: "prompt \<Rightarrow> pystr + pystr option"
  json_loads :: "pystr \<Rightarrow> pystr + jv"
  unicode_lower :: "pystr \<Rightarrow> pystr"

definition py_lower :: "env \<Rightarrow> pystr \<Rightarrow> pystr" where
  "py_lower e s = (if list_all (\<lambda>c. c < 128) s then map ascii_lower s else unicode_lower e s)"

text \<open>An entry of \<open>produits_for_detection\<close>: a dict with these four keys.\<close>

record produit_info =
  pi_id :: pystr
  pi_nom :: pystr
  pi_prix_unitaire :: int
  pi_quantite_stock :: int

definition strip_fences :: "pystr \<Rightarrow> pystr" where
  "strip_fences text0 =
     (let text1 = (if startswith text0 (u ''```json'') then drop 7 text0 else text0);
          text2 = (if startswith text1 (u ''```'') then drop 3 text1 else text1)
      in if endswith text2 (u ''```'') then take (length text2 - 3) text2 else text2)"

definition intent_prompt :: "pystr \<Rightarrow> produit_info list \<Rightarrow> pystr \<Rightarrow> prompt" where
  "intent_prompt message produits language =
     (let produits_list =
            join (u '', '')
              (map (\<lambda>p. pi_nom p @ u '' ('' @ str_int (pi_prix_unitaire p) @ u '' FCFA)'')
                 (take 30 produits));
          is_english = (language = u ''en'')
      in \<lparr>pr_is_english = is_english, pr_message = message, pr_produits_list = produits_list\<rparr>)"

text \<open>From \<open>response.text\<close> to \<open>json_match.group()\<close>: \<open>(response.text or "").strip()\<close>, the
  code fences removed, the brace-delimited part searched.\<close>

definition json_match :: "pystr option \<Rightarrow> pystr option" where
  "json_match response_text =
     (let text = strip_fences (py_strip (case response_text of None \<Rightarrow> [] | Some t \<Rightarrow> t))
      in re_search_braces text)"

text \<open>
  The function has no result but a dict: each way out of the \<open>try\<close> is a \<open>return\<close>, and
  \<open>except Exception\<close> turns every exception of the model call, of the text handling and of
  \<open>json.loads\<close> into a returned dict.
\<close>

definition detect_transaction_intent :: "env \<Rightarrow> pystr \<Rightarrow> produit_info list \<Rightarrow> pystr \<Rightarrow> jv" where
  "detect_transaction_intent e message produits language =
     (if \<not> client_configured e
      then JDict [(u ''has_transaction'', JBool False), (u ''error'', JStr (u ''API not configured''))]
      else
        case generate_content e (intent_prompt message produits language) of
          Inl err \<Rightarrow> JDict [(u ''has_transaction'', JBool False), (u ''error'', JStr err)]
        | Inr response_text \<Rightarrow>
            (case json_match response_text of
               Some m \<Rightarrow>
                 (case json_loads e m of
                    Inl err \<Rightarrow> JDict [(u ''has_transaction'', JBool False), (u ''error'', JStr err)]
                  | Inr result \<Rightarrow> result)
             | None \<Rightarrow> JDict [(u ''has_transaction'', JBool False)]))"

section \<open>The ledger (\<open>models.py\<close>)\<close>

text \<open>
  The columns the chat turn reads or writes.  Primary keys of new rows are generated by
  the store and are left out; a timestamp is a number of microseconds.  A table is the
  list of its rows in the order a query without \<open>ORDER BY\<close> yields them.  The nullable
  columns that the application always fills (\<open>quantite_stock\<close>, \<open>active\<close>, \<open>created_at\<close>) are
  filled here too.  The values the turn reads from the store (the shop's id, a product's
  id, name, price and stock) are values the store holds.  A \<open>db.commit()\<close> that flushes a
  new row binds the row's values: when one of them is refused (\<open>bind_error\<close>) the commit
  raises, the transaction is rolled back and nothing is written.
\<close>

record produit =
  p_id :: pystr
  p_boutique_id :: pystr
  p_nom :: pystr
  p_prix_unitaire :: int
  p_quantite_stock :: int
  p_active :: bool
  p_deleted_at :: "int option"

record vente =
  v_boutique_id :: pystr
  v_produit_id :: pystr
  v_quantite :: int
  v_prix_unitaire :: int
  v_montant_total :: int

record depense =
  dp_boutique_id :: pystr
  dp_categorie :: pystr
  dp_montant :: int
  dp_description :: pystr

record dette =
  dt_boutique_id :: pystr
  dt_nom_client :: pystr
  dt_montant_initial :: int
  dt_montant_restant :: int
  dt_statut :: pystr

record audit_log =
  a_boutique_id :: pystr
  a_action :: pystr
  a_table_name :: pystr
  a_new_values :: jv

record chat_log =
  c_boutique_id :: pystr
  c_bot_response :: pystr
  c_created_at :: int

record database =
  produits :: "produit list"
  ventes :: "vente list"
  depenses :: "depense list"
  dettes :: "dette list"
  audit_logs :: "audit_log list"
  chat_logs :: "chat_log list"

text \<open>\<open>log_audit\<close> with \<open>old_values = None\<close>: one more audit row.\<close>

definition log_audit :: "database \<Rightarrow> pystr \<Rightarrow> pystr \<Rightarrow> pystr \<Rightarrow> jv \<Rightarrow> database" where
  "log_audit db boutique_id action table_name new_values =
     db\<lparr>audit_logs := audit_logs db @
          [\<lparr>a_boutique_id = boutique_id, a_action = action, a_table_name = table_name,
            a_new_values = new_values\<rparr>]\<rparr>"

text \<open>The object an ORM query's \<open>.first()\<close> returns is the row itself: an update of it is an
  update of the first row that satisfies the filter.\<close>

fun update_first :: "('a \<Rightarrow> bool) \<Rightarrow> ('a \<Rightarrow> 'a) \<Rightarrow> 'a list \<Rightarrow> 'a list" where
  "update_first P f [] = []"
| "update_first P f (x # xs) = (if P x then f x # xs else x # update_first P f xs)"

section \<open>The auto-recording part of \<open>chatbot_message\<close> (\<open>main.py\<close>)\<close>

record chatbot_request =
  message :: pystr
  language :: pystr
  auto_record_transactions :: bool

text \<open>
  The local variables of the turn that the auto-recording part reads and writes: the
  session, the \<open>result\<close> dict parsed from the assistant's reply, \<open>transaction_recorded\<close>
  and \<open>auto_tx_feedback\<close>.
\<close>

record turn =
  t_db :: database
  t_result :: "(pystr \<times> jv) list"
  t_transaction_recorded :: "jv option"
  t_auto_tx_feedback :: "pystr option"

subsection \<open>The texts\<close>

definition noted :: "bool \<Rightarrow> pystr \<Rightarrow> nat \<Rightarrow> pystr" where
  "noted is_english tx_msg emoji =
     (if \<not> is_english then u ''C'' @ [39] @ u ''est not'' @ [233] @ u '' ! '' @ tx_msg @ [32, emoji]
      else u ''Got it! '' @ tx_msg @ [32, emoji])"

definition tx_msg_vente :: "bool \<Rightarrow> int \<Rightarrow> pystr \<Rightarrow> int \<Rightarrow> pystr" where
  "tx_msg_vente is_english quantite nom montant_total =
     (if \<not> is_english
      then u ''Vente enregistr'' @ [233] @ u ''e: '' @ str_int quantite @ u ''x '' @ nom @ u '' = ''
           @ format_fcfa montant_total
      else u ''Sale recorded: '' @ str_int quantite @ u ''x '' @ nom @ u '' = ''
           @ format_fcfa montant_total)"

definition tx_msg_depense :: "bool \<Rightarrow> int \<Rightarrow> pystr \<Rightarrow> pystr" where
  "tx_msg_depense is_english montant categorie =
     (if \<not> is_english
      then u ''D'' @ [233] @ u ''pense enregistr'' @ [233] @ u ''e: '' @ format_fcfa montant
           @ u '' ('' @ categorie @ u '')''
      else u ''Expense recorded: '' @ format_fcfa montant @ u '' ('' @ categorie @ u '')'')"

definition tx_msg_dette :: "bool \<Rightarrow> pystr \<Rightarrow> int \<Rightarrow> pystr" where
  "tx_msg_dette is_english client_nom montant =
     (if \<not> is_english
      then u ''Dette enregistr'' @ [233] @ u ''e: '' @ client_nom @ u '' doit '' @ format_fcfa montant
      else u ''Debt recorded: '' @ client_nom @ u '' owes '' @ format_fcfa montant)"

definition fb_rate_limit :: "bool \<Rightarrow> pystr" where
  "fb_rate_limit is_english =
     (if \<not> is_english
      then u ''Trop de transactions automatiques r'' @ [233]
           @ u ''centes. Utilisez les formulaires pour continuer.''
      else u ''Too many recent automatic transactions. Please use the forms to continue.'')"

definition fb_stock_insuffisant :: "bool \<Rightarrow> pystr \<Rightarrow> int \<Rightarrow> pystr" where
  "fb_stock_insuffisant is_english nom stock =
     (if \<not> is_english
      then u ''Stock insuffisant pour '' @ nom @ u '' ('' @ str_int stock
           @ u '' disponible). Ajoutez du stock d'' @ [39] @ u ''abord.''
      else u ''Insufficient stock for '' @ nom @ u '' ('' @ str_int stock
           @ u '' available). Add stock first.'')"

definition fb_non_trouve :: "bool \<Rightarrow> pystr \<Rightarrow> pystr" where
  "fb_non_trouve is_english produit_nom =
     (if \<not> is_english
      then u ''Produit '' @ [39] @ produit_nom @ [39] @ u '' non trouv'' @ [233]
           @ u ''. Ajoutez-le dans le stock d'' @ [39] @ u ''abord.''
      else u ''Product '' @ [39] @ produit_nom @ [39] @ u '' not found. Add it to stock first.'')"

definition fb_quantite :: "bool \<Rightarrow> pystr" where
  "fb_quantite is_english =
     (if \<not> is_english
      then u ''Pr'' @ [233] @ u ''cisez la quantit'' @ [233] @ u '' (ex: '' @ [39]
           @ u ''2 sacs de riz'' @ [39] @ u '').''
      else u ''Specify the quantity (e.g., '' @ [39] @ u ''2 bags of rice'' @ [39] @ u '').'')"

definition fb_produit :: "bool \<Rightarrow> pystr" where
  "fb_produit is_english =
     (if \<not> is_english
      then u ''Pr'' @ [233] @ u ''cisez le produit (ex: '' @ [39] @ u ''vendu 3 savons'' @ [39] @ u '').''
      else u ''Specify the product (e.g., '' @ [39] @ u ''sold 3 soaps'' @ [39] @ u '').'')"

definition fb_montant_depense :: "bool \<Rightarrow> pystr" where
  "fb_montant_depense is_english =
     (if \<not> is_english
      then u ''Pr'' @ [233] @ u ''cisez le montant de la d'' @ [233] @ u ''pense (minimum 100 FCFA).''
      else u ''Specify the expense amount (minimum 100 FCFA).'')"

definition fb_montant_dette :: "bool \<Rightarrow> pystr" where
  "fb_montant_dette is_english =
     (if \<not> is_english
      then u ''Pr'' @ [233] @ u ''cisez le montant de la dette (minimum 500 FCFA).''
      else u ''Specify the debt amount (minimum 500 FCFA).'')"

definition fb_nom_client :: "bool \<Rightarrow> pystr" where
  "fb_nom_client is_english =
     (if \<not> is_english
      then u ''Pr'' @ [233] @ u ''cisez le nom du client.''
      else u ''Specify the client'' @ [39] @ u ''s name.'')"

definition recorded :: "pystr \<Rightarrow> (pystr \<times> jv) list \<Rightarrow> pystr \<Rightarrow> jv" where
  "recorded type details tx_msg =
     JDict [(u ''type'', JStr type), (u ''details'', JDict details),
            (u ''success'', JBool True), (u ''message'', JStr tx_msg)]"

subsection \<open>The Entity Resolver\<close>

text \<open>
  The filter of the product query:
  \<open>boutique_id == boutique.id, lower(nom) LIKE '%' + produit_nom.lower() + '%',
  active == True, deleted_at == None\<close>.
\<close>

definition produit_filter :: "env \<Rightarrow> pystr \<Rightarrow> pystr \<Rightarrow> produit \<Rightarrow> bool" where
  "produit_filter e boutique_id produit_nom p =
     (p_boutique_id p = boutique_id
      \<and> like (sqlite_lower (p_nom p)) ([37] @ py_lower e produit_nom @ [37])
      \<and> p_active p
      \<and> p_deleted_at p = None)"

definition resolve_produit :: "env \<Rightarrow> database \<Rightarrow> pystr \<Rightarrow> pystr \<Rightarrow> produit option" where
  "resolve_produit e db boutique_id produit_nom =
     find (produit_filter e boutique_id produit_nom) (produits db)"

text \<open>
  The query as it runs: the pattern is bound first, which raises on a lone surrogate; the
  table is scanned in order, and \<open>LIKE\<close> is evaluated on the rows of the shop, where a
  pattern that is too long raises; \<open>.first()\<close> returns the first row that passes the filter.
\<close>

definition query_produit :: "env \<Rightarrow> database \<Rightarrow> pystr \<Rightarrow> pystr \<Rightarrow> exn + produit option" where
  "query_produit e db boutique_id produit_nom =
     (let pattern = [37] @ py_lower e produit_nom @ [37]
      in case bind_error [PStr pattern] of
           Some x \<Rightarrow> Inl x
         | None \<Rightarrow>
             if 50000 < utf8_length pattern
                \<and> list_ex (\<lambda>p. p_boutique_id p = boutique_id) (produits db)
             then Inl OperationalError
             else Inr (resolve_produit e db boutique_id produit_nom))"

subsection \<open>The Transaction Committer\<close>

text \<open>
  Each branch returns the turn's variables as the branch leaves them, or the exception it
  raises.  Every exception is raised before the session is written, or by the
  \<open>db.commit()\<close> that would write it, so nothing is written when the result is an exception.
  The \<open>commit_\<close> functions give the turn after a commit that succeeds; the branch asks
  \<open>bind_error\<close> first, with the values of the flush in the order of their columns.
\<close>

definition commit_vente :: "bool \<Rightarrow> env \<Rightarrow> pystr \<Rightarrow> turn \<Rightarrow> pystr \<Rightarrow> produit \<Rightarrow> int \<Rightarrow> turn" where
  "commit_vente is_english e boutique_id t produit_nom produit quantite =
     (let montant_total = quantite * p_prix_unitaire produit;
          vente = \<lparr>v_boutique_id = boutique_id, v_produit_id = p_id produit,
                   v_quantite = quantite, v_prix_unitaire = p_prix_unitaire produit,
                   v_montant_total = montant_total\<rparr>;
          db1 = (t_db t)\<lparr>
                  produits := update_first (produit_filter e boutique_id produit_nom)
                                (\<lambda>p. p\<lparr>p_quantite_stock := p_quantite_stock p - quantite\<rparr>)
                                (produits (t_db t)),
                  ventes := ventes (t_db t) @ [vente]\<rparr>;
          db2 = log_audit db1 boutique_id (u ''create_auto'') (u ''ventes'')
                  (JDict [(u ''source'', JStr (u ''cecile'')), (u ''produit'', JStr (p_nom produit)),
                          (u ''quantite'', JInt quantite)]);
          tx_msg = tx_msg_vente is_english quantite (p_nom produit) montant_total
      in t\<lparr>t_db := db2,
            t_transaction_recorded :=
              Some (recorded (u ''vente'')
                      [(u ''produit'', JStr (p_nom produit)), (u ''quantite'', JInt quantite),
                       (u ''montant'', JInt montant_total)] tx_msg),
            t_result := dict_set (t_result t) (u ''response'') (JStr (noted is_english tx_msg 128170))\<rparr>)"

definition vente_branch :: "bool \<Rightarrow> env \<Rightarrow> pystr \<Rightarrow> turn \<Rightarrow> jv \<Rightarrow> exn + turn" where
  "vente_branch is_english e boutique_id t details =
     (case py_get details (u ''produit_nom'') JNull of Inl x \<Rightarrow> Inl x | Inr produit_nom \<Rightarrow>
      case py_get details (u ''quantite'') JNull of Inl x \<Rightarrow> Inl x | Inr quantite \<Rightarrow>
      if py_truthy produit_nom \<and> isinstance_str produit_nom \<and> 2 \<le> length (str_of produit_nom)
      then
        if py_truthy quantite \<and> isinstance_int_float quantite \<and> py_ge quantite 1 = Inr True
        then
          case py_int quantite of Inl x \<Rightarrow> Inl x | Inr q \<Rightarrow>
          case query_produit e (t_db t) boutique_id (str_of produit_nom) of Inl x \<Rightarrow> Inl x
          | Inr found \<Rightarrow>
          (case found of
             Some produit \<Rightarrow>
               if q \<le> p_quantite_stock produit
               then
                 (case bind_error [PInt (p_quantite_stock produit - q), PInt q,
                                   PInt (p_prix_unitaire produit),
                                   PInt (q * p_prix_unitaire produit)] of
                    Some x \<Rightarrow> Inl x
                  | None \<Rightarrow>
                      Inr (commit_vente is_english e boutique_id t (str_of produit_nom) produit q))
               else Inr (t\<lparr>t_auto_tx_feedback :=
                           Some (fb_stock_insuffisant is_english (p_nom produit)
                                   (p_quantite_stock produit))\<rparr>)
           | None \<Rightarrow>
               Inr (t\<lparr>t_auto_tx_feedback := Some (fb_non_trouve is_english (str_of produit_nom))\<rparr>))
        else Inr (t\<lparr>t_auto_tx_feedback := Some (fb_quantite is_english)\<rparr>)
      else Inr (t\<lparr>t_auto_tx_feedback := Some (fb_produit is_english)\<rparr>))"

text \<open>\<open>description[:500] if isinstance(description, str) else ""\<close>\<close>

definition depense_description :: "jv \<Rightarrow> pystr" where
  "depense_description description =
     (if isinstance_str description then take 500 (str_of description) else [])"

definition commit_depense :: "bool \<Rightarrow> pystr \<Rightarrow> turn \<Rightarrow> pystr \<Rightarrow> int \<Rightarrow> jv \<Rightarrow> turn" where
  "commit_depense is_english boutique_id t categorie montant description =
     (let depense = \<lparr>dp_boutique_id = boutique_id, dp_categorie = categorie, dp_montant = montant,
                     dp_description = depense_description description\<rparr>;
          db1 = (t_db t)\<lparr>depenses := depenses (t_db t) @ [depense]\<rparr>;
          db2 = log_audit db1 boutique_id (u ''create_auto'') (u ''depenses'')
                  (JDict [(u ''source'', JStr (u ''cecile'')), (u ''categorie'', JStr categorie),
                          (u ''montant'', JInt montant)]);
          tx_msg = tx_msg_depense is_english montant categorie
      in t\<lparr>t_db := db2,
            t_transaction_recorded :=
              Some (recorded (u ''depense'')
                      [(u ''categorie'', JStr categorie), (u ''montant'', JInt montant)] tx_msg),
            t_result := dict_set (t_result t) (u ''response'') (JStr (noted is_english tx_msg 128221))\<rparr>)"

definition depense_branch :: "bool \<Rightarrow> pystr \<Rightarrow> turn \<Rightarrow> jv \<Rightarrow> exn + turn" where
  "depense_branch is_english boutique_id t details =
     (case py_get details (u ''montant_total'') JNull of Inl x \<Rightarrow> Inl x | Inr montant \<Rightarrow>
      if py_truthy montant \<and> isinstance_int_float montant \<and> py_ge montant 100 = Inr True
      then
        case py_int montant of Inl x \<Rightarrow> Inl x | Inr m \<Rightarrow>
        case py_get details (u ''categorie'') JNull of Inl x \<Rightarrow> Inl x | Inr categorie0 \<Rightarrow>
        case py_get details (u ''description'') JNull of Inl x \<Rightarrow> Inl x | Inr description0 \<Rightarrow>
        (let categorie = py_or categorie0 (JStr (u ''Autre''));
             description = py_or description0 (JStr [])
         in if isinstance_str categorie \<and> 2 \<le> length (str_of categorie)
            then
              (case bind_error [PStr (str_of categorie), PInt m,
                                PStr (depense_description description)] of
                 Some x \<Rightarrow> Inl x
               | None \<Rightarrow>
                   Inr (commit_depense is_english boutique_id t (str_of categorie) m description))
            else Inr t)
      else Inr (t\<lparr>t_auto_tx_feedback := Some (fb_montant_depense is_english)\<rparr>))"

definition commit_dette :: "bool \<Rightarrow> pystr \<Rightarrow> turn \<Rightarrow> pystr \<Rightarrow> int \<Rightarrow> turn" where
  "commit_dette is_english boutique_id t client_nom montant =
     (let dette = \<lparr>dt_boutique_id = boutique_id, dt_nom_client = take 100 client_nom,
                   dt_montant_initial = montant, dt_montant_restant = montant,
                   dt_statut = u ''en_cours''\<rparr>;
          db1 = (t_db t)\<lparr>dettes := dettes (t_db t) @ [dette]\<rparr>;
          db2 = log_audit db1 boutique_id (u ''create_auto'') (u ''dettes'')
                  (JDict [(u ''source'', JStr (u ''cecile'')), (u ''client'', JStr client_nom),
                          (u ''montant'', JInt montant)]);
          tx_msg = tx_msg_dette is_english client_nom montant
      in t\<lparr>t_db := db2,
            t_transaction_recorded :=
              Some (recorded (u ''dette'')
                      [(u ''client'', JStr client_nom), (u ''montant'', JInt montant)] tx_msg),
            t_result := dict_set (t_result t) (u ''response'') (JStr (noted is_english tx_msg 128203))\<rparr>)"

definition dette_branch :: "bool \<Rightarrow> pystr \<Rightarrow> turn \<Rightarrow> jv \<Rightarrow> exn + turn" where
  "dette_branch is_english boutique_id t details =
     (case py_get details (u ''client_nom'') JNull of Inl x \<Rightarrow> Inl x | Inr client_nom \<Rightarrow>
      case py_get details (u ''montant_total'') JNull of Inl x \<Rightarrow> Inl x | Inr montant \<Rightarrow>
      if py_truthy client_nom \<and> isinstance_str client_nom \<and> 2 \<le> length (str_of client_nom)
      then
        if py_truthy montant \<and> isinstance_int_float montant \<and> py_ge montant 500 = Inr True
        then
          case py_int montant of Inl x \<Rightarrow> Inl x
          | Inr m \<Rightarrow>
              (case bind_error [PStr (take 100 (str_of client_nom)), PInt m, PInt m] of
                 Some x \<Rightarrow> Inl x
               | None \<Rightarrow> Inr (commit_dette is_english boutique_id t (str_of client_nom) m))
        else Inr (t\<lparr>t_auto_tx_feedback := Some (fb_montant_dette is_english)\<rparr>)
      else Inr (t\<lparr>t_auto_tx_feedback := Some (fb_nom_client is_english)\<rparr>))"

subsection \<open>The Abuse Guard, the Confidence Gate and the dispatch\<close>

text \<open>Five minutes, in microseconds.\<close>

definition five_minutes :: int where
  "five_minutes = 300000000"

definition recent_auto_tx_count :: "database \<Rightarrow> pystr \<Rightarrow> int \<Rightarrow> nat" where
  "recent_auto_tx_count db boutique_id now =
     (let five_minutes_ago = now - five_minutes
      in length (filter (\<lambda>c. c_boutique_id c = boutique_id
                            \<and> five_minutes_ago \<le> c_created_at c
                            \<and> (like (c_bot_response c) (u ''%enregistr'' @ [233] @ u ''e:%'')
                               \<or> like (c_bot_response c) (u ''%recorded:%'')))
                  (chat_logs db)))"

definition produits_for_detection :: "database \<Rightarrow> pystr \<Rightarrow> produit_info list" where
  "produits_for_detection db boutique_id =
     map (\<lambda>p. \<lparr>pi_id = p_id p, pi_nom = p_nom p, pi_prix_unitaire = p_prix_unitaire p,
               pi_quantite_stock = p_quantite_stock p\<rparr>)
       (take 30 (filter (\<lambda>p. p_boutique_id p = boutique_id \<and> p_active p \<and> p_deleted_at p = None)
                   (produits db)))"

text \<open>
  \<open>if intent.get("has_transaction") and intent.get("confidence", 0) >= 0.8:\<close> and the
  \<open>if tx_type == ... elif ... elif ...\<close> below it, which has no \<open>else\<close>.  The confidence is
  read only when \<open>has_transaction\<close> is truthy.
\<close>

definition dispatch_intent :: "bool \<Rightarrow> env \<Rightarrow> pystr \<Rightarrow> turn \<Rightarrow> jv \<Rightarrow> exn + turn" where
  "dispatch_intent is_english e boutique_id t intent =
     (case py_get intent (u ''has_transaction'') JNull of Inl x \<Rightarrow> Inl x | Inr has_transaction \<Rightarrow>
      if \<not> py_truthy has_transaction then Inr t
      else
        case py_get intent (u ''confidence'') (JInt 0) of Inl x \<Rightarrow> Inl x | Inr confidence \<Rightarrow>
        case py_ge confidence float_0_8 of Inl x \<Rightarrow> Inl x | Inr confident \<Rightarrow>
        if \<not> confident then Inr t
        else
          case py_get intent (u ''transaction_type'') JNull of Inl x \<Rightarrow> Inl x | Inr tx_type \<Rightarrow>
          case py_get intent (u ''details'') (JDict []) of Inl x \<Rightarrow> Inl x | Inr details \<Rightarrow>
          if tx_type = JStr (u ''vente'') then vente_branch is_english e boutique_id t details
          else if tx_type = JStr (u ''depense'') then depense_branch is_english boutique_id t details
          else if tx_type = JStr (u ''dette'') then dette_branch is_english boutique_id t details
          else Inr t)"

definition auto_record :: "env \<Rightarrow> int \<Rightarrow> pystr \<Rightarrow> chatbot_request \<Rightarrow> turn \<Rightarrow> exn + turn" where
  "auto_record e now boutique_id data t =
     (let is_english = (language data = u ''en'')
      in if auto_record_transactions data
         then
           if 10 \<le> recent_auto_tx_count (t_db t) boutique_id now
           then Inr (t\<lparr>t_auto_tx_feedback := Some (fb_rate_limit is_english)\<rparr>)
           else
             let intent = detect_transaction_intent e (message data)
                            (produits_for_detection (t_db t) boutique_id) (language data)
             in dispatch_intent is_english e boutique_id t intent
         else Inr t)"

subsection \<open>The Reply Composer\<close>

text \<open>
  \<open>result["response"] + f"\n\n\<dots> {auto_tx_feedback}"\<close>: the separator is two newlines, the
  light-bulb emoji and a space.  Adding a string to a response that is not a string raises
  TypeError.
\<close>

definition compose_reply :: "turn \<Rightarrow> exn + (pystr \<times> jv) list" where
  "compose_reply t =
     (let result1 = (case t_transaction_recorded t of
                       Some tr \<Rightarrow> dict_set (t_result t) (u ''transaction_recorded'') tr
                     | None \<Rightarrow> t_result t)
      in case t_auto_tx_feedback t of
           None \<Rightarrow> Inr result1
         | Some auto_tx_feedback \<Rightarrow>
             if auto_tx_feedback \<noteq> [] \<and> t_transaction_recorded t = None
             then
               (let response = dict_get result1 (u ''response'') JNull
                in if py_truthy response
                   then
                     (if isinstance_str response
                      then Inr (dict_set result1 (u ''response'')
                                  (JStr (str_of response @ [10, 10, 128161, 32] @ auto_tx_feedback)))
                      else Inl TypeError)
                   else Inr (dict_set result1 (u ''response'') (JStr auto_tx_feedback)))
             else Inr result1)"

text \<open>
  The part of \<open>chatbot_message\<close> from \<open>transaction_recorded = None\<close> to the composed
  \<open>result\<close>: the session after it, and the result or the exception that reaches the
  handlers of the \<open>try\<close>.
\<close>

definition initial_turn :: "database \<Rightarrow> (pystr \<times> jv) list \<Rightarrow> turn" where
  "initial_turn db result =
     \<lparr>t_db = db, t_result = result, t_transaction_recorded = None, t_auto_tx_feedback = None\<rparr>"

definition chatbot_auto_record ::
  "env \<Rightarrow> int \<Rightarrow> pystr \<Rightarrow> chatbot_request \<Rightarrow> database \<Rightarrow> (pystr \<times> jv) list
     \<Rightarrow> database \<times> (exn + (pystr \<times> jv) list)" where
  "chatbot_auto_record e now boutique_id data db result =
     (case auto_record e now boutique_id data (initial_turn db result) of
        Inl x \<Rightarrow> (db, Inl x)
      | Inr t \<Rightarrow> (t_db t, compose_reply t))"

section \<open>Notions of the specification\<close>

text \<open>A JSON value that is a number below \<open>c\<close> (\<open>true\<close> and \<open>false\<close> count as 1 and 0, as
  Python has them).\<close>

fun number_lt :: "jv \<Rightarrow> real \<Rightarrow> bool" where
  "number_lt (JBool b) c = ((if b then 1 else 0) < c)"
| "number_lt (JInt i) c = (of_int i < c)"
| "number_lt (JFloat (Finite r)) c = (r < c)"
| "number_lt (JFloat NegInf) c = True"
| "number_lt _ c = False"

text \<open>
  Extraction fails: no API client is configured, or the model call raises, or the model's
  text holds no brace-delimited part, or \<open>json.loads\<close> raises on that part.
\<close>

definition extraction_fails :: "env \<Rightarrow> pystr \<Rightarrow> produit_info list \<Rightarrow> pystr \<Rightarrow> bool" where
  "extraction_fails e msg ps lang =
     (\<not> client_configured e
      \<or> (case generate_content e (intent_prompt msg ps lang) of
            Inl err \<Rightarrow> True
          | Inr response_text \<Rightarrow>
              (case json_match response_text of
                 None \<Rightarrow> True
               | Some m \<Rightarrow> (case json_loads e m of Inl err \<Rightarrow> True | Inr result \<Rightarrow> False))))"

text \<open>\<open>sub in s\<close>: the string \<open>s\<close> contains \<open>sub\<close>.\<close>

fun contains_str :: "pystr \<Rightarrow> pystr \<Rightarrow> bool" where
  "contains_str [] sub = (sub = [])"
| "contains_str (c # cs) sub = (startswith (c # cs) sub \<or> contains_str cs sub)"

text \<open>A name without the two wildcard characters of \<open>LIKE\<close>, \<open>%\<close> and \<open>_\<close>.\<close>

definition wildcard_free :: "pystr \<Rightarrow> bool" where
  "wildcard_free s = (37 \<notin> set s \<and> 95 \<notin> set s)"


section \<open>Test doubles and sample data\<close>

text \<open>A deterministic stub of the language model and of the parser: the model answers with
  a brace-delimited text and the parser yields the given intent.\<close>

definition stub_env :: "jv \<Rightarrow> env" where
  "stub_env intent =
     \<lparr>client_configured = True,
      generate_content = (\<lambda>p. Inr (Some (u ''{}''))),
      json_loads = (\<lambda>s. Inr intent),
      unicode_lower = (\<lambda>s. s)\<rparr>"

text \<open>A model that answers with prose and no JSON.\<close>

definition prose_env :: env where
  "prose_env =
     \<lparr>client_configured = True,
      generate_content = (\<lambda>p. Inr (Some (u ''I am not sure what you mean.''))),
      json_loads = (\<lambda>s. Inl (u ''Expecting value'')),
      unicode_lower = (\<lambda>s. s)\<rparr>"

definition riz :: "int \<Rightarrow> produit" where
  "riz stock =
     \<lparr>p_id = u ''p1'', p_boutique_id = u ''b1'', p_nom = u ''riz'', p_prix_unitaire = 15000,
      p_quantite_stock = stock, p_active = True, p_deleted_at = None\<rparr>"

definition riz_db :: "int \<Rightarrow> database" where
  "riz_db stock =
     \<lparr>produits = [riz stock], ventes = [], depenses = [], dettes = [], audit_logs = [],
      chat_logs = []\<rparr>"

text \<open>The same shop after ten confirmed automatic sales, all logged at time 0.\<close>

definition busy_db :: database where
  "busy_db =
     (riz_db 10)\<lparr>chat_logs :=
       replicate 10 \<lparr>c_boutique_id = u ''b1'',
                      c_bot_response = u ''Got it! Sale recorded: 1x riz = 15 000 FCFA'',
                      c_created_at = 0\<rparr>\<rparr>"

definition request_en :: chatbot_request where
  "request_en =
     \<lparr>message = u ''Sold 2 bags of rice at 15000'', language = u ''en'',
      auto_record_transactions = True\<rparr>"

text \<open>The double nearest to \<open>0.95\<close>, the confidence of the specification's sale scenario.\<close>

definition float_0_95 :: real where
  "float_0_95 = 4278419646001971 / 4503599627370496"

definition intent_of :: "jv \<Rightarrow> pystr \<Rightarrow> (pystr \<times> jv) list \<Rightarrow> jv" where
  "intent_of confidence tx_type details =
     JDict [(u ''has_transaction'', JBool True), (u ''transaction_type'', JStr tx_type),
            (u ''details'', JDict details), (u ''confidence'', confidence)]"

definition reply :: "(pystr \<times> jv) list" where
  "reply = [(u ''response'', JStr (u ''Well done!'')), (u ''suggestions'', JList [])]"

definition sale_intent :: "pystr \<Rightarrow> jv \<Rightarrow> jv" where
  "sale_intent produit_nom quantite =
     intent_of (JFloat (Finite float_0_95)) (u ''vente'')
       [(u ''produit_nom'', JStr produit_nom), (u ''quantite'', quantite)]"




text \<open>What the specification's sale scenario leads to: the shop with a stock of 8, one sale of
  30000, one audit row, and the confirmation in the result.\<close>

definition sale_outcome :: "database \<times> (exn + (pystr \<times> jv) list)" where
  "sale_outcome =
     (\<lparr>produits = [riz 8],
       ventes = [\<lparr>v_boutique_id = u ''b1'', v_produit_id = u ''p1'', v_quantite = 2,
                  v_prix_unitaire = 15000, v_montant_total = 30000\<rparr>],
       depenses = [], dettes = [],
       audit_logs = [\<lparr>a_boutique_id = u ''b1'', a_action = u ''create_auto'',
                      a_table_name = u ''ventes'',
                      a_new_values = JDict [(u ''source'', JStr (u ''cecile'')),
                                            (u ''produit'', JStr (u ''riz'')),
                                            (u ''quantite'', JInt 2)]\<rparr>],
       chat_logs = []\<rparr>,
      Inr [(u ''response'', JStr (u ''Got it! Sale recorded: 2x riz = 30 000 FCFA '' @ [128170])),
           (u ''suggestions'', JList []),
           (u ''transaction_recorded'',
            JDict [(u ''type'', JStr (u ''vente'')),
                   (u ''details'', JDict [(u ''produit'', JStr (u ''riz'')), (u ''quantite'', JInt 2),
                                          (u ''montant'', JInt 30000)]),
                   (u ''success'', JBool True),
                   (u ''message'', JStr (u ''Sale recorded: 2x riz = 30 000 FCFA''))])])"

section \<open>Auxiliary facts\<close>

lemma number_lt_not_ge: "number_lt v (4/5) \<Longrightarrow> py_ge v float_0_8 = Inr False"
  by (induction v "4/5::real" rule: number_lt.induct) (auto simp: float_0_8_def)

lemma dispatch_blocked:
  assumes "\<not> py_truthy (dict_get d (u ''has_transaction'') JNull)
           \<or> number_lt (dict_get d (u ''confidence'') (JInt 0)) (4/5)"
  shows "dispatch_intent is_english e bid t (JDict d) = Inr t"
  using assms number_lt_not_ge[of "dict_get d (u ''confidence'') (JInt 0)"]
  by (auto simp: dispatch_intent_def)

lemma initial_turn_sel [simp]:
  "t_db (initial_turn db result) = db"
  "t_result (initial_turn db result) = result"
  "t_transaction_recorded (initial_turn db result) = None"
  "t_auto_tx_feedback (initial_turn db result) = None"
  by (simp_all add: initial_turn_def)

lemma compose_no_feedback: "compose_reply (initial_turn db result) = Inr result"
  by (simp add: compose_reply_def initial_turn_def)

lemma detect_stub: "detect_transaction_intent (stub_env intent) m ps l = intent"
  by (simp add: detect_transaction_intent_def stub_env_def json_match_def py_strip_def
      strip_fences_def re_search_braces_def u_def startswith_def endswith_def py_isspace_def
      Let_def)

lemma count_riz_db: "recent_auto_tx_count (riz_db s) b n = 0"
  by (simp add: recent_auto_tx_count_def riz_db_def)

lemma compose_feedback_str:
  assumes "dict_get result (u ''response'') JNull = JStr s" "s \<noteq> []" "fb \<noteq> []"
  shows "compose_reply ((initial_turn db result)\<lparr>t_auto_tx_feedback := Some fb\<rparr>)
         = Inr (dict_set result (u ''response'') (JStr (s @ [10, 10, 128161, 32] @ fb)))"
  using assms by (simp add: compose_reply_def Let_def)

lemma compose_feedback_falsy:
  assumes "\<not> py_truthy (dict_get result (u ''response'') JNull)" "fb \<noteq> []"
  shows "compose_reply ((initial_turn db result)\<lparr>t_auto_tx_feedback := Some fb\<rparr>)
         = Inr (dict_set result (u ''response'') (JStr fb))"
  using assms by (simp add: compose_reply_def Let_def)

lemma fb_rate_limit_nonempty: "fb_rate_limit b \<noteq> []"
  by (simp add: fb_rate_limit_def u_def)

lemma detect_failure:
  assumes "extraction_fails e msg ps lang"
  shows "\<exists>d. detect_transaction_intent e msg ps lang = JDict d
             \<and> dict_get d (u ''has_transaction'') JNull = JBool False"
  using assms
  by (auto simp: extraction_fails_def detect_transaction_intent_def dict_get_def
      split: sum.splits option.splits)

lemma prose_fails: "extraction_fails prose_env msg ps lang"
  by (simp add: extraction_fails_def prose_env_def json_match_def py_strip_def
      strip_fences_def re_search_braces_def u_def startswith_def endswith_def py_isspace_def
      Let_def)

lemma like_recorded: "like (u ''Got it! Sale recorded: 1x riz = 15 000 FCFA'') (u ''%recorded:%'')"
  by (simp add: like_def u_def ascii_lower_def)

lemma count_busy: "recent_auto_tx_count busy_db (u ''b1'') 60000000 = 10"
  by (simp add: recent_auto_tx_count_def busy_db_def five_minutes_def like_recorded)

subsection \<open>What a turn can do to the ledger\<close>

lemma py_int_ge:
  assumes "py_ge v (of_int k) = Inr True" "py_int v = Inr q"
  shows "k \<le> q"
proof (cases v)
  case (JFloat f)
  show ?thesis
  proof (cases f)
    case (Finite r)
    with JFloat assms have kr: "of_int k \<le> r" and q: "q = (if 0 \<le> r then \<lfloor>r\<rfloor> else \<lceil>r\<rceil>)"
      by auto
    from kr have "k \<le> \<lfloor>r\<rfloor>" by (simp add: le_floor_iff)
    moreover have "\<lfloor>r\<rfloor> \<le> \<lceil>r\<rceil>" by (rule floor_le_ceiling)
    ultimately have "k \<le> \<lfloor>r\<rfloor> \<and> k \<le> \<lceil>r\<rceil>" by linarith
    then show ?thesis using q by simp
  qed (use JFloat assms in auto)
qed (use assms in \<open>auto split: if_splits\<close>)

lemma py_int_ge_1: "py_ge v 1 = Inr True \<Longrightarrow> py_int v = Inr q \<Longrightarrow> 1 \<le> q"
  using py_int_ge[of v 1 q] by simp

lemma py_int_ge_100: "py_ge v 100 = Inr True \<Longrightarrow> py_int v = Inr q \<Longrightarrow> 100 \<le> q"
  using py_int_ge[of v 100 q] by simp

lemma py_int_ge_500: "py_ge v 500 = Inr True \<Longrightarrow> py_int v = Inr q \<Longrightarrow> 500 \<le> q"
  using py_int_ge[of v 500 q] by simp

lemma query_produit_Inr:
  "query_produit e db bid nom = Inr found \<Longrightarrow> resolve_produit e db bid nom = found"
  by (auto simp: query_produit_def Let_def split: option.splits if_splits)

lemma depense_branch_cases:
  assumes "depense_branch en bid t details = Inr t'"
  shows "(t_db t' = t_db t \<and> t_result t' = t_result t
           \<and> t_transaction_recorded t' = t_transaction_recorded t)
       \<or> (\<exists>cat m desc. 100 \<le> m \<and> 2 \<le> length cat \<and> t' = commit_depense en bid t cat m desc)"
  using assms
  by (auto simp: depense_branch_def Let_def split: sum.splits if_splits dest: py_int_ge_100)

lemma vente_branch_cases:
  assumes "vente_branch en e bid t details = Inr t'"
  shows "(t_db t' = t_db t \<and> t_result t' = t_result t
           \<and> t_transaction_recorded t' = t_transaction_recorded t)
       \<or> (\<exists>nom p q. resolve_produit e (t_db t) bid nom = Some p \<and> 1 \<le> q
              \<and> q \<le> p_quantite_stock p \<and> t' = commit_vente en e bid t nom p q)"
  using assms
  by (auto simp: vente_branch_def split: sum.splits option.splits if_splits)
     (blast dest: py_int_ge_1 query_produit_Inr)+

lemma dette_branch_cases:
  assumes "dette_branch en bid t details = Inr t'"
  shows "(t_db t' = t_db t \<and> t_result t' = t_result t
           \<and> t_transaction_recorded t' = t_transaction_recorded t)
       \<or> (\<exists>nom m. 2 \<le> length nom \<and> 500 \<le> m \<and> t' = commit_dette en bid t nom m)"
  using assms
  by (auto simp: dette_branch_def split: sum.splits option.splits if_splits dest: py_int_ge_500)

lemma vente_branch_sale:
  assumes "vente_branch en e bid t details = Inr t'"
      and "ventes (t_db t') \<noteq> ventes (t_db t)"
  shows "\<exists>dd nom q p. details = JDict dd
           \<and> dict_get dd (u ''produit_nom'') JNull = JStr nom \<and> 2 \<le> length nom
           \<and> py_ge (dict_get dd (u ''quantite'') JNull) 1 = Inr True
           \<and> py_int (dict_get dd (u ''quantite'') JNull) = Inr q \<and> 1 \<le> q
           \<and> resolve_produit e (t_db t) bid nom = Some p \<and> q \<le> p_quantite_stock p
           \<and> t' = commit_vente en e bid t nom p q"
proof -
  from assms(1) obtain dd where dd: "details = JDict dd"
    by (cases details) (auto simp: vente_branch_def)
  define pn where "pn = dict_get dd (u ''produit_nom'') JNull"
  define qv where "qv = dict_get dd (u ''quantite'') JNull"
  have name_ok: "py_truthy pn \<and> isinstance_str pn \<and> 2 \<le> length (str_of pn)"
    using assms by (auto simp: vente_branch_def dd pn_def split: if_splits)
  then obtain nom where nom: "pn = JStr nom" "2 \<le> length nom"
    by (cases pn) auto
  have q_ok: "py_truthy qv \<and> isinstance_int_float qv \<and> py_ge qv 1 = Inr True"
    using assms name_ok by (auto simp: vente_branch_def dd pn_def qv_def split: if_splits)
  then obtain q where q: "py_int qv = Inr q"
    using assms name_ok
    by (cases "py_int qv") (auto simp: vente_branch_def dd pn_def qv_def)
  with q_ok have q1: "1 \<le> q" by (auto dest: py_int_ge_1)
  obtain found where found: "query_produit e (t_db t) bid nom = Inr found"
    using assms name_ok q_ok q nom
    by (cases "query_produit e (t_db t) bid nom")
       (auto simp: vente_branch_def dd pn_def[symmetric] qv_def[symmetric])
  obtain p where p: "found = Some p" "q \<le> p_quantite_stock p"
      "t' = commit_vente en e bid t nom p q"
    using assms name_ok q_ok q nom found
    by (cases found)
       (auto simp: vente_branch_def dd pn_def[symmetric] qv_def[symmetric]
          split: if_splits option.splits)
  from query_produit_Inr[OF found] p(1)
  have r: "resolve_produit e (t_db t) bid nom = Some p" by simp
  show ?thesis
    using dd nom q_ok q q1 p(2,3) r by (auto simp: pn_def qv_def)
qed

lemma depense_branch_keeps:
  assumes "depense_branch en bid t details = Inr t'"
  shows "ventes (t_db t') = ventes (t_db t) \<and> produits (t_db t') = produits (t_db t)
       \<and> dettes (t_db t') = dettes (t_db t)"
  using depense_branch_cases[OF assms]
  by (auto simp: commit_depense_def Let_def log_audit_def)

lemma dette_branch_keeps:
  assumes "dette_branch en bid t details = Inr t'"
  shows "ventes (t_db t') = ventes (t_db t) \<and> produits (t_db t') = produits (t_db t)
       \<and> depenses (t_db t') = depenses (t_db t)"
  using dette_branch_cases[OF assms]
  by (auto simp: commit_dette_def Let_def log_audit_def)

lemma dispatch_sale:
  assumes "dispatch_intent en e bid t intent = Inr t'"
      and "ventes (t_db t') \<noteq> ventes (t_db t)"
  shows "\<exists>d. intent = JDict d
           \<and> py_truthy (dict_get d (u ''has_transaction'') JNull)
           \<and> py_ge (dict_get d (u ''confidence'') (JInt 0)) float_0_8 = Inr True
           \<and> dict_get d (u ''transaction_type'') JNull = JStr (u ''vente'')
           \<and> vente_branch en e bid t (dict_get d (u ''details'') (JDict [])) = Inr t'"
proof -
  from assms(1) obtain d where d: "intent = JDict d"
    by (cases intent) (auto simp: dispatch_intent_def)
  show ?thesis
    using assms depense_branch_keeps[of en bid t _ t'] dette_branch_keeps[of en bid t _ t']
    by (auto simp: dispatch_intent_def d split: if_splits sum.splits)
qed

lemma sale_recorded_cases:
  assumes "ventes (fst (chatbot_auto_record e now bid data db result)) \<noteq> ventes db"
  shows "\<exists>d dd nom q p.
           detect_transaction_intent e (message data) (produits_for_detection db bid) (language data)
             = JDict d
           \<and> py_truthy (dict_get d (u ''has_transaction'') JNull)
           \<and> py_ge (dict_get d (u ''confidence'') (JInt 0)) float_0_8 = Inr True
           \<and> dict_get d (u ''transaction_type'') JNull = JStr (u ''vente'')
           \<and> dict_get d (u ''details'') (JDict []) = JDict dd
           \<and> dict_get dd (u ''produit_nom'') JNull = JStr nom \<and> 2 \<le> length nom
           \<and> py_ge (dict_get dd (u ''quantite'') JNull) 1 = Inr True
           \<and> py_int (dict_get dd (u ''quantite'') JNull) = Inr q \<and> 1 \<le> q
           \<and> resolve_produit e db bid nom = Some p \<and> q \<le> p_quantite_stock p
           \<and> fst (chatbot_auto_record e now bid data db result)
               = t_db (commit_vente (language data = u ''en'') e bid (initial_turn db result) nom p q)
           \<and> snd (chatbot_auto_record e now bid data db result)
               = compose_reply
                   (commit_vente (language data = u ''en'') e bid (initial_turn db result) nom p q)"
proof -
  let ?t = "initial_turn db result"
  let ?en = "language data = u ''en''"
  let ?intent = "detect_transaction_intent e (message data) (produits_for_detection db bid) (language data)"
  obtain t' where t': "auto_record e now bid data ?t = Inr t'" "ventes (t_db t') \<noteq> ventes db"
    "fst (chatbot_auto_record e now bid data db result) = t_db t'"
    "snd (chatbot_auto_record e now bid data db result) = compose_reply t'"
    using assms by (cases "auto_record e now bid data ?t") (auto simp: chatbot_auto_record_def)
  then have disp: "dispatch_intent ?en e bid ?t ?intent = Inr t'"
    by (auto simp: auto_record_def Let_def split: if_splits)
  from dispatch_sale[OF disp] t'(2) obtain d where d: "?intent = JDict d"
      "py_truthy (dict_get d (u ''has_transaction'') JNull)"
      "py_ge (dict_get d (u ''confidence'') (JInt 0)) float_0_8 = Inr True"
      "dict_get d (u ''transaction_type'') JNull = JStr (u ''vente'')"
      "vente_branch ?en e bid ?t (dict_get d (u ''details'') (JDict [])) = Inr t'"
    by auto
  from vente_branch_sale[OF d(5)] t'(2) obtain dd nom q p where
    "dict_get d (u ''details'') (JDict []) = JDict dd"
    "dict_get dd (u ''produit_nom'') JNull = JStr nom" "2 \<le> length nom"
    "py_ge (dict_get dd (u ''quantite'') JNull) 1 = Inr True"
    "py_int (dict_get dd (u ''quantite'') JNull) = Inr q" "1 \<le> q"
    "resolve_produit e db bid nom = Some p" "q \<le> p_quantite_stock p"
    "t' = commit_vente ?en e bid ?t nom p q"
    by auto
  with d t'(3,4) show ?thesis by blast
qed

lemma compose_commit_vente:
  "compose_reply (commit_vente en e bid (initial_turn db result) nom p q)
   = Inr (dict_set
            (dict_set result (u ''response'')
               (JStr (noted en (tx_msg_vente en q (p_nom p) (q * p_prix_unitaire p)) 128170)))
            (u ''transaction_recorded'')
            (recorded (u ''vente'')
               [(u ''produit'', JStr (p_nom p)), (u ''quantite'', JInt q),
                (u ''montant'', JInt (q * p_prix_unitaire p))]
               (tx_msg_vente en q (p_nom p) (q * p_prix_unitaire p))))"
  by (simp add: commit_vente_def compose_reply_def Let_def)

lemma update_first_find:
  assumes "find P xs = Some p"
  shows "\<exists>i<length xs. xs ! i = p \<and> update_first P f xs = xs[i := f p]"
  using assms
proof (induction xs)
  case Nil
  then show ?case by simp
next
  case (Cons x xs)
  show ?case
  proof (cases "P x")
    case True
    with Cons.prems have "x = p" by simp
    with True show ?thesis by (intro exI[of _ 0]) simp
  next
    case False
    with Cons.prems have "find P xs = Some p" by simp
    from Cons.IH[OF this] obtain i where "i < length xs" "xs ! i = p"
      "update_first P f xs = xs[i := f p]" by blast
    with False show ?thesis by (intro exI[of _ "Suc i"]) simp
  qed
qed


lemma dispatch_cases:
  assumes "dispatch_intent en e bid t intent = Inr t'"
  shows "(t_db t' = t_db t \<and> t_result t' = t_result t
           \<and> t_transaction_recorded t' = t_transaction_recorded t)
       \<or> (\<exists>nom p q. resolve_produit e (t_db t) bid nom = Some p \<and> 1 \<le> q
              \<and> q \<le> p_quantite_stock p \<and> t' = commit_vente en e bid t nom p q)
       \<or> (\<exists>cat m desc. 100 \<le> m \<and> 2 \<le> length cat \<and> t' = commit_depense en bid t cat m desc)
       \<or> (\<exists>nom m. 2 \<le> length nom \<and> 500 \<le> m \<and> t' = commit_dette en bid t nom m)"
proof -
  from assms obtain d where d: "intent = JDict d"
    by (cases intent) (auto simp: dispatch_intent_def)
  define ty where "ty = dict_get d (u ''transaction_type'') JNull"
  define det where "det = dict_get d (u ''details'') (JDict [])"
  have "t' = t \<or> vente_branch en e bid t det = Inr t' \<or> depense_branch en bid t det = Inr t'
        \<or> dette_branch en bid t det = Inr t'"
  proof (cases "py_truthy (dict_get d (u ''has_transaction'') JNull)")
    case False
    with assms show ?thesis by (simp add: dispatch_intent_def d)
  next
    case True
    show ?thesis
    proof (cases "py_ge (dict_get d (u ''confidence'') (JInt 0)) float_0_8")
      case (Inl x)
      with assms True show ?thesis by (simp add: dispatch_intent_def d)
    next
      case (Inr confident)
      with assms True show ?thesis
        by (cases confident) (simp_all add: dispatch_intent_def d ty_def det_def split: if_splits)
    qed
  qed
  then consider (same) "t' = t"
    | (v) "vente_branch en e bid t det = Inr t'"
    | (d) "depense_branch en bid t det = Inr t'"
    | (c) "dette_branch en bid t det = Inr t'"
    by blast
  then show ?thesis
  proof cases
    case same then show ?thesis by simp
  next
    case v from vente_branch_cases[OF this] show ?thesis by blast
  next
    case d from depense_branch_cases[OF this] show ?thesis by blast
  next
    case c from dette_branch_cases[OF this] show ?thesis by blast
  qed
qed

lemma auto_record_cases:
  assumes "auto_record e now bid data t = Inr t'"
  shows "(t_db t' = t_db t \<and> t_result t' = t_result t
           \<and> t_transaction_recorded t' = t_transaction_recorded t)
       \<or> (\<exists>nom p q. resolve_produit e (t_db t) bid nom = Some p \<and> 1 \<le> q
              \<and> q \<le> p_quantite_stock p
              \<and> t' = commit_vente (language data = u ''en'') e bid t nom p q)
       \<or> (\<exists>cat m desc. 100 \<le> m \<and> 2 \<le> length cat
              \<and> t' = commit_depense (language data = u ''en'') bid t cat m desc)
       \<or> (\<exists>nom m. 2 \<le> length nom \<and> 500 \<le> m
              \<and> t' = commit_dette (language data = u ''en'') bid t nom m)"
proof -
  consider (same) "t_db t' = t_db t \<and> t_result t' = t_result t
           \<and> t_transaction_recorded t' = t_transaction_recorded t"
    | (disp) intent where "dispatch_intent (language data = u ''en'') e bid t intent = Inr t'"
    using assms by (auto simp: auto_record_def Let_def split: if_splits)
  then show ?thesis
  proof cases
    case same then show ?thesis by simp
  next
    case disp from dispatch_cases[OF this] show ?thesis .
  qed
qed

lemma chatbot_db_cases:
  "fst (chatbot_auto_record e now bid data db result) = db
   \<or> (\<exists>nom p q. resolve_produit e db bid nom = Some p \<and> 1 \<le> q \<and> q \<le> p_quantite_stock p
         \<and> fst (chatbot_auto_record e now bid data db result)
             = t_db (commit_vente (language data = u ''en'') e bid (initial_turn db result) nom p q))
   \<or> (\<exists>cat m desc. 100 \<le> m \<and> 2 \<le> length cat
         \<and> fst (chatbot_auto_record e now bid data db result)
             = t_db (commit_depense (language data = u ''en'') bid (initial_turn db result) cat m desc))
   \<or> (\<exists>nom m. 2 \<le> length nom \<and> 500 \<le> m
         \<and> fst (chatbot_auto_record e now bid data db result)
             = t_db (commit_dette (language data = u ''en'') bid (initial_turn db result) nom m))"
proof (cases "auto_record e now bid data (initial_turn db result)")
  case (Inl x)
  then show ?thesis by (simp add: chatbot_auto_record_def)
next
  case (Inr t')
  have fst_eq: "fst (chatbot_auto_record e now bid data db result) = t_db t'"
    by (simp add: chatbot_auto_record_def Inr)
  from auto_record_cases[OF Inr] show ?thesis
    unfolding fst_eq by (elim disjE exE conjE; simp; blast)
qed

lemma db_commit_vente:
  "t_db (commit_vente en e bid t nom p q)
   = (t_db t)\<lparr>produits := update_first (produit_filter e bid nom)
                              (\<lambda>p. p\<lparr>p_quantite_stock := p_quantite_stock p - q\<rparr>)
                              (produits (t_db t)),
                ventes := ventes (t_db t) @ [\<lparr>v_boutique_id = bid, v_produit_id = p_id p,
                    v_quantite = q, v_prix_unitaire = p_prix_unitaire p,
                    v_montant_total = q * p_prix_unitaire p\<rparr>],
                audit_logs := audit_logs (t_db t) @
                  [\<lparr>a_boutique_id = bid, a_action = u ''create_auto'', a_table_name = u ''ventes'',
                    a_new_values = JDict [(u ''source'', JStr (u ''cecile'')),
                                          (u ''produit'', JStr (p_nom p)),
                                          (u ''quantite'', JInt q)]\<rparr>]\<rparr>"
  by (simp add: commit_vente_def Let_def log_audit_def)

lemma db_commit_depense:
  "t_db (commit_depense en bid t cat m desc)
   = (t_db t)\<lparr>depenses := depenses (t_db t) @
                  [\<lparr>dp_boutique_id = bid, dp_categorie = cat, dp_montant = m,
                    dp_description = (if isinstance_str desc then take 500 (str_of desc) else [])\<rparr>],
                audit_logs := audit_logs (t_db t) @
                  [\<lparr>a_boutique_id = bid, a_action = u ''create_auto'', a_table_name = u ''depenses'',
                    a_new_values = JDict [(u ''source'', JStr (u ''cecile'')),
                                          (u ''categorie'', JStr cat),
                                          (u ''montant'', JInt m)]\<rparr>]\<rparr>"
  by (simp add: commit_depense_def depense_description_def Let_def log_audit_def)

lemma db_commit_dette:
  "t_db (commit_dette en bid t nom m)
   = (t_db t)\<lparr>dettes := dettes (t_db t) @
                  [\<lparr>dt_boutique_id = bid, dt_nom_client = take 100 nom, dt_montant_initial = m,
                    dt_montant_restant = m, dt_statut = u ''en_cours''\<rparr>],
                audit_logs := audit_logs (t_db t) @
                  [\<lparr>a_boutique_id = bid, a_action = u ''create_auto'', a_table_name = u ''dettes'',
                    a_new_values = JDict [(u ''source'', JStr (u ''cecile'')),
                                          (u ''client'', JStr nom),
                                          (u ''montant'', JInt m)]\<rparr>]\<rparr>"
  by (simp add: commit_dette_def Let_def log_audit_def)

lemma ventes_same_produits_same:
  assumes "ventes (fst (chatbot_auto_record e now bid data db result)) = ventes db"
  shows "produits (fst (chatbot_auto_record e now bid data db result)) = produits db"
  using chatbot_db_cases[of e now bid data db result] assms
  by (elim disjE exE conjE) (simp_all add: db_commit_vente db_commit_depense db_commit_dette)


subsection \<open>The sale scenario, evaluated\<close>

lemma filter_riz: "produit_filter (stub_env i) (u ''b1'') (u ''riz'') (riz s)"
  by (simp add: produit_filter_def riz_def like_def
      sqlite_lower_def py_lower_def stub_env_def u_def ascii_lower_def)

lemma filter_wild: "produit_filter (stub_env i) (u ''b1'') (u ''%%'') (riz s)"
  by (simp add: produit_filter_def riz_def like_def
      sqlite_lower_def py_lower_def stub_env_def u_def ascii_lower_def)

lemma resolve_riz:
  "resolve_produit (stub_env i) (riz_db s) (u ''b1'') (u ''riz'') = Some (riz s)"
  by (simp add: resolve_produit_def riz_db_def filter_riz)

lemma resolve_wild:
  "resolve_produit (stub_env i) (riz_db s) (u ''b1'') (u ''%%'') = Some (riz s)"
  by (simp add: resolve_produit_def riz_db_def filter_wild)

lemma query_riz:
  "query_produit (stub_env i) (riz_db s) (u ''b1'') (u ''riz'') = Inr (Some (riz s))"
  by (simp add: query_produit_def Let_def resolve_riz)
     (simp add: py_lower_def stub_env_def u_def ascii_lower_def utf8_encodable_def
        utf8_length_def utf8_size_def)

lemma query_wild:
  "query_produit (stub_env i) (riz_db s) (u ''b1'') (u ''%%'') = Inr (Some (riz s))"
  by (simp add: query_produit_def Let_def resolve_wild)
     (simp add: py_lower_def stub_env_def u_def ascii_lower_def utf8_encodable_def
        utf8_length_def utf8_size_def)

lemma fmt_30000: "format_fcfa 30000 = u ''30 000 FCFA''"
  by (simp add: format_fcfa_def format_comma_def str_nat.simps u_def)

lemma sale_scenario:
  assumes nom: "2 \<le> length nom" "produit_filter (stub_env (sale_intent nom qv)) (u ''b1'') nom (riz 10)"
        "query_produit (stub_env (sale_intent nom qv)) (riz_db 10) (u ''b1'') nom = Inr (Some (riz 10))"
      and qv: "py_truthy qv" "isinstance_int_float qv" "py_ge qv 1 = Inr True" "py_int qv = Inr 2"
  shows "chatbot_auto_record (stub_env (sale_intent nom qv)) 0 (u ''b1'') request_en (riz_db 10) reply
         = sale_outcome"
proof -
  let ?e = "stub_env (sale_intent nom qv)"
  have gate: "dispatch_intent True ?e (u ''b1'') t (sale_intent nom qv)
        = vente_branch True ?e (u ''b1'') t
            (JDict [(u ''produit_nom'', JStr nom), (u ''quantite'', qv)])" for t
    by (simp add: dispatch_intent_def sale_intent_def intent_of_def dict_get_def u_def
        float_0_8_def float_0_95_def)
  have branch: "vente_branch True ?e (u ''b1'') (initial_turn (riz_db 10) reply)
            (JDict [(u ''produit_nom'', JStr nom), (u ''quantite'', qv)])
        = Inr (commit_vente True ?e (u ''b1'') (initial_turn (riz_db 10) reply) nom (riz 10) 2)"
  proof -
    have ne: "nom \<noteq> []" using nom(1) by auto
    have stock: "p_quantite_stock (riz 10) = 10" "p_prix_unitaire (riz 10) = 15000"
      by (simp_all add: riz_def)
    show ?thesis
      using nom(1,3) qv ne stock
      by (simp add: vente_branch_def dict_get_def u_def sqlite_integer_def)
  qed
  have upd: "(riz 10)\<lparr>p_quantite_stock := p_quantite_stock (riz 10) - 2\<rparr> = riz 8"
    by (simp add: riz_def)
  show ?thesis
    apply (simp add: chatbot_auto_record_def auto_record_def count_riz_db detect_stub Let_def
        request_en_def gate branch)
    apply (simp add: commit_vente_def Let_def log_audit_def compose_reply_def upd riz_db_def
        recorded_def tx_msg_vente_def noted_def reply_def nom(2) sale_outcome_def)
    apply (simp add: riz_def fmt_30000 str_int_def str_nat.simps)
    apply (simp add: u_def)
    done
qed

lemma sale_scenario_int:
  "chatbot_auto_record (stub_env (sale_intent (u ''riz'') (JInt 2))) 0 (u ''b1'') request_en
     (riz_db 10) reply = sale_outcome"
  by (rule sale_scenario) (simp_all add: filter_riz query_riz, simp add: u_def)


lemma sale_scenario_wild:
  "chatbot_auto_record (stub_env (sale_intent (u ''%%'') (JInt 2))) 0 (u ''b1'') request_en
     (riz_db 10) reply = sale_outcome"
  by (rule sale_scenario) (simp_all add: filter_wild query_wild, simp add: u_def)

subsection \<open>Sample data and feedback texts\<close>

lemma riz_db_sel:
  "produits (riz_db s) = [riz s]" "ventes (riz_db s) = []" "depenses (riz_db s) = []"
  "dettes (riz_db s) = []"
  by (simp_all add: riz_db_def)

lemma riz_sel:
  "p_quantite_stock (riz s) = s" "p_prix_unitaire (riz s) = 15000" "p_id (riz s) = u ''p1''"
  "p_nom (riz s) = u ''riz''"
  by (simp_all add: riz_def)





section \<open>The confidence gate\<close>

text \<open>
  Claim C1.  When the extracted intent has a falsy \<open>has_transaction\<close>, or a confidence that
  is a number below 0.8 (an absent confidence counts as 0), the turn leaves the whole
  session as it was: no Sale, Expense or Debt row is created and no stock changes.  When
  extraction ran (auto-recording enabled, fewer than 10 recent automatic transactions), the
  result is the assistant's reply unchanged: no \<open>transaction_recorded\<close> and no feedback.
  So a commit happens only for a truthy \<open>has_transaction\<close> and a confidence of at least 0.8.
\<close>

theorem confidence_gate_no_mutation:
  assumes "detect_transaction_intent e (message data) (produits_for_detection db bid)
             (language data) = JDict d"
      and "\<not> py_truthy (dict_get d (u ''has_transaction'') JNull)
           \<or> number_lt (dict_get d (u ''confidence'') (JInt 0)) (4/5)"
  shows "fst (chatbot_auto_record e now bid data db result) = db
       \<and> (recent_auto_tx_count db bid now < 10 \<longrightarrow>
            chatbot_auto_record e now bid data db result = (db, Inr result))"
  using assms(1) dispatch_blocked[OF assms(2)]
  by (simp add: chatbot_auto_record_def auto_record_def compose_no_feedback Let_def)

text \<open>The scenario of the specification: the sale of 2 bags of rice, valid in every field,
  at confidence 0.5.\<close>

theorem confidence_gate_no_mutation_witness:
  "number_lt (JFloat (Finite (1/2))) (4/5)
   \<and> chatbot_auto_record
       (stub_env (intent_of (JFloat (Finite (1/2))) (u ''vente'')
          [(u ''produit_nom'', JStr (u ''riz'')), (u ''quantite'', JInt 2)]))
       0 (u ''b1'') request_en (riz_db 10) reply = (riz_db 10, Inr reply)"
  using confidence_gate_no_mutation
    [of "stub_env (intent_of (JFloat (Finite (1/2))) (u ''vente'')
           [(u ''produit_nom'', JStr (u ''riz'')), (u ''quantite'', JInt 2)])"
        request_en "riz_db 10" "u ''b1''"
        "[(u ''has_transaction'', JBool True), (u ''transaction_type'', JStr (u ''vente'')),
          (u ''details'', JDict [(u ''produit_nom'', JStr (u ''riz'')), (u ''quantite'', JInt 2)]),
          (u ''confidence'', JFloat (Finite (1/2)))]" 0 reply]
  by (simp add: detect_stub intent_of_def dict_get_def u_def count_riz_db)

text \<open>
  Claim C10.  An intent that passes the gate (truthy \<open>has_transaction\<close>, confidence at least
  the float 0.8) with a \<open>transaction_type\<close> other than \<open>"vente"\<close>, \<open>"depense"\<close> and \<open>"dette"\<close>
  (absent, null, another string, not a string) leaves the session as it was and the result
  as the assistant gave it: no row, no \<open>transaction_recorded\<close>, no feedback.
\<close>

theorem unknown_type_silent:
  assumes "detect_transaction_intent e (message data) (produits_for_detection db bid)
             (language data) = JDict d"
      and "py_truthy (dict_get d (u ''has_transaction'') JNull)"
      and "py_ge (dict_get d (u ''confidence'') (JInt 0)) float_0_8 = Inr True"
      and "dict_get d (u ''transaction_type'') JNull
             \<notin> {JStr (u ''vente''), JStr (u ''depense''), JStr (u ''dette'')}"
      and "recent_auto_tx_count db bid now < 10"
  shows "chatbot_auto_record e now bid data db result = (db, Inr result)"
  using assms
  by (simp add: chatbot_auto_record_def auto_record_def dispatch_intent_def compose_no_feedback
      Let_def)

theorem unknown_type_silent_witness:
  "chatbot_auto_record
     (stub_env (intent_of (JFloat (Finite (8106479329266893 / 9007199254740992))) (u ''achat'')
        [(u ''produit_nom'', JStr (u ''riz'')), (u ''quantite'', JInt 2)]))
     0 (u ''b1'') request_en (riz_db 10) reply = (riz_db 10, Inr reply)"
  using unknown_type_silent
    [of "stub_env (intent_of (JFloat (Finite (8106479329266893 / 9007199254740992))) (u ''achat'')
           [(u ''produit_nom'', JStr (u ''riz'')), (u ''quantite'', JInt 2)])"
        request_en "riz_db 10" "u ''b1''"
        "[(u ''has_transaction'', JBool True), (u ''transaction_type'', JStr (u ''achat'')),
          (u ''details'', JDict [(u ''produit_nom'', JStr (u ''riz'')), (u ''quantite'', JInt 2)]),
          (u ''confidence'', JFloat (Finite (8106479329266893 / 9007199254740992)))]" 0 reply]
  by (simp add: detect_stub intent_of_def dict_get_def u_def count_riz_db float_0_8_def)

section \<open>Extraction failures\<close>

text \<open>
  Claim C3.  When extraction fails (no client, an exception of the model call, no
  brace-delimited part in the answer, or a part that \<open>json.loads\<close> rejects),
  \<open>detect_transaction_intent\<close> returns a dict whose \<open>has_transaction\<close> is \<open>False\<close>; it is a
  total function, so it raises nothing.  A chat turn that extracts from this message then
  leaves the session as it was and, when extraction ran, returns the assistant's reply
  unchanged.  (\<open>chatbot_message\<close> asks for the client before it composes a reply: with no
  client configured it returns at once, before the part modelled here, and writes nothing to
  the ledger either.)
\<close>

theorem extraction_failure_no_transaction:
  assumes "extraction_fails e msg ps lang"
  shows "(\<exists>d. detect_transaction_intent e msg ps lang = JDict d
             \<and> dict_get d (u ''has_transaction'') JNull = JBool False)
       \<and> (\<forall>data db bid now result.
            msg = message data \<and> ps = produits_for_detection db bid \<and> lang = language data \<longrightarrow>
            fst (chatbot_auto_record e now bid data db result) = db
            \<and> (recent_auto_tx_count db bid now < 10 \<longrightarrow>
                 chatbot_auto_record e now bid data db result = (db, Inr result)))"
proof -
  from detect_failure[OF assms] obtain d where
    d: "detect_transaction_intent e msg ps lang = JDict d"
       "dict_get d (u ''has_transaction'') JNull = JBool False"
    by blast
  have blocked: "dispatch_intent is_english e bid t (JDict d) = Inr t" for is_english bid t
    by (rule dispatch_blocked) (simp add: d(2))
  show ?thesis
    using d blocked
    by (auto simp: chatbot_auto_record_def auto_record_def compose_no_feedback Let_def)
qed

text \<open>The scenario of the specification: the model answers with text that is not JSON.\<close>

theorem extraction_failure_no_transaction_witness:
  "extraction_fails prose_env (message request_en) (produits_for_detection (riz_db 10) (u ''b1''))
     (language request_en)
   \<and> detect_transaction_intent prose_env (message request_en)
       (produits_for_detection (riz_db 10) (u ''b1'')) (language request_en)
     = JDict [(u ''has_transaction'', JBool False)]
   \<and> chatbot_auto_record prose_env 0 (u ''b1'') request_en (riz_db 10) reply = (riz_db 10, Inr reply)"
  using extraction_failure_no_transaction
    [of prose_env "message request_en" "produits_for_detection (riz_db 10) (u ''b1'')"
        "language request_en"]
  apply (simp add: prose_fails count_riz_db)
  apply (simp add: detect_transaction_intent_def prose_env_def json_match_def py_strip_def
      strip_fences_def re_search_braces_def u_def startswith_def endswith_def py_isspace_def
      Let_def)
  done

section \<open>The abuse guard\<close>

text \<open>
  Claim C4.  When the account has 10 or more automatic-transaction confirmations logged in
  the last five minutes and auto-recording is enabled, the turn leaves the session as it
  was, its outcome is the same whatever the extractor, the parser and the resolver would
  do (none of them is called), and the rate-limit notice is appended to the assistant's
  reply (or stands alone when the reply is empty or absent).
\<close>

theorem abuse_guard_skips_extraction:
  assumes "10 \<le> recent_auto_tx_count db bid now" and "auto_record_transactions data"
  shows "fst (chatbot_auto_record e now bid data db result) = db
       \<and> chatbot_auto_record e now bid data db result = chatbot_auto_record e' now bid data db result
       \<and> (\<forall>s. dict_get result (u ''response'') JNull = JStr s \<and> s \<noteq> [] \<longrightarrow>
             snd (chatbot_auto_record e now bid data db result)
             = Inr (dict_set result (u ''response'')
                     (JStr (s @ [10, 10, 128161, 32] @ fb_rate_limit (language data = u ''en'')))))
       \<and> (\<not> py_truthy (dict_get result (u ''response'') JNull) \<longrightarrow>
             snd (chatbot_auto_record e now bid data db result)
             = Inr (dict_set result (u ''response'')
                     (JStr (fb_rate_limit (language data = u ''en'')))))"
  using assms
  by (simp add: chatbot_auto_record_def auto_record_def Let_def compose_feedback_str
      compose_feedback_falsy fb_rate_limit_nonempty)

theorem abuse_guard_skips_extraction_witness:
  "10 \<le> recent_auto_tx_count busy_db (u ''b1'') 60000000
   \<and> auto_record_transactions request_en
   \<and> chatbot_auto_record
        (stub_env (intent_of (JInt 1) (u ''vente'')
           [(u ''produit_nom'', JStr (u ''riz'')), (u ''quantite'', JInt 2)]))
        60000000 (u ''b1'') request_en busy_db reply
      = (busy_db, Inr [(u ''response'', JStr (u ''Well done!'' @ [10, 10, 128161, 32] @
           u ''Too many recent automatic transactions. Please use the forms to continue.'')),
           (u ''suggestions'', JList [])])"
  using abuse_guard_skips_extraction
    [of busy_db "u ''b1''" 60000000 request_en
        "stub_env (intent_of (JInt 1) (u ''vente'')
           [(u ''produit_nom'', JStr (u ''riz'')), (u ''quantite'', JInt 2)])" reply]
  apply (simp add: count_busy)
  apply (simp add: request_en_def reply_def dict_get_def fb_rate_limit_def)
  apply (simp add: u_def prod_eq_iff)
  done

section \<open>Validation failures\<close>

text \<open>
  Claim C8.  A confident expense intent with a valid amount (500) and a category that is
  present but too short (\<open>"X"\<close>): the branch \<open>if isinstance(categorie, str) and
  len(categorie) >= 2\<close> has no \<open>else\<close>, so the turn creates no row and appends no
  instruction; the result is the assistant's reply alone.
\<close>

theorem expense_invalid_category_no_feedback:
  "chatbot_auto_record
     (stub_env (intent_of (JFloat (Finite (8106479329266893 / 9007199254740992))) (u ''depense'')
        [(u ''montant_total'', JInt 500), (u ''categorie'', JStr (u ''X''))]))
     0 (u ''b1'') request_en (riz_db 10) reply = (riz_db 10, Inr reply)"
  by (simp add: chatbot_auto_record_def auto_record_def count_riz_db detect_stub Let_def
      dispatch_intent_def intent_of_def dict_get_def depense_branch_def py_or_def
      float_0_8_def compose_no_feedback request_en_def u_def)

section \<open>Sales\<close>

text \<open>
  Claim C6.  Whenever a turn records a sale, the new Sale row refers to the product the
  resolver found in the catalog, its unit price is that product's unit price as read at
  the commit, and its total is the quantity times that unit price.
\<close>

theorem sale_price_snapshot:
  assumes "ventes (fst (chatbot_auto_record e now bid data db result)) \<noteq> ventes db"
  shows "\<exists>nom p q. resolve_produit e db bid nom = Some p \<and> p \<in> set (produits db)
           \<and> ventes (fst (chatbot_auto_record e now bid data db result))
               = ventes db @ [\<lparr>v_boutique_id = bid, v_produit_id = p_id p, v_quantite = q,
                                v_prix_unitaire = p_prix_unitaire p,
                                v_montant_total = q * p_prix_unitaire p\<rparr>]"
proof -
  from sale_recorded_cases[OF assms] obtain nom p q where
    r: "resolve_produit e db bid nom = Some p"
    and f: "fst (chatbot_auto_record e now bid data db result)
            = t_db (commit_vente (language data = u ''en'') e bid (initial_turn db result) nom p q)"
    by blast
  from r have "p \<in> set (produits db)"
    by (auto simp: resolve_produit_def find_Some_iff)
  with r f show ?thesis
    by (auto simp: db_commit_vente)
qed

text \<open>The scenario of the specification: rice at 15000 with a stock of 10, a sale of 2 at
  confidence 0.95: the sale has a total of 30000 and the stock becomes 8.\<close>

theorem sale_price_snapshot_witness:
  "ventes (fst (chatbot_auto_record (stub_env (sale_intent (u ''riz'') (JInt 2))) 0 (u ''b1'')
                  request_en (riz_db 10) reply)) \<noteq> ventes (riz_db 10)
   \<and> ventes (fst (chatbot_auto_record (stub_env (sale_intent (u ''riz'') (JInt 2))) 0 (u ''b1'')
                  request_en (riz_db 10) reply))
     = [\<lparr>v_boutique_id = u ''b1'', v_produit_id = u ''p1'', v_quantite = 2,
         v_prix_unitaire = 15000, v_montant_total = 30000\<rparr>]
   \<and> produits (fst (chatbot_auto_record (stub_env (sale_intent (u ''riz'') (JInt 2))) 0 (u ''b1'')
                  request_en (riz_db 10) reply)) = [riz 8]"
  using sale_price_snapshot
    [of "stub_env (sale_intent (u ''riz'') (JInt 2))" 0 "u ''b1''" request_en "riz_db 10" reply]
  by (simp add: sale_scenario_int sale_outcome_def riz_db_sel)

text \<open>
  Claim C2, as the code has it.  Whenever a turn records a sale of quantity \<open>q\<close>, the
  resolved product is a row of the catalog, that row's stock goes from its value before
  to that value minus \<open>q\<close> and no other product row changes, \<open>q\<close> is at least 1 and at most
  the stock before, so the stock after is not negative, and the Sale row is appended in
  the same step.  When no sale is recorded, no stock changes.  The confirmation of every
  recorded sale, that is the reply text and the \<open>transaction_recorded\<close> descriptor, is the
  one given here: it is made of the quantity, the product's name and the total, and of
  nothing else; the stock is no part of it.
\<close>

theorem sale_stock_decrement:
  "(ventes (fst (chatbot_auto_record e now bid data db result)) \<noteq> ventes db \<longrightarrow>
      (\<exists>nom p q i.
          resolve_produit e db bid nom = Some p \<and> 1 \<le> q \<and> q \<le> p_quantite_stock p
          \<and> i < length (produits db) \<and> produits db ! i = p
          \<and> produits (fst (chatbot_auto_record e now bid data db result))
              = (produits db)[i := p\<lparr>p_quantite_stock := p_quantite_stock p - q\<rparr>]
          \<and> 0 \<le> p_quantite_stock p - q
          \<and> ventes (fst (chatbot_auto_record e now bid data db result))
              = ventes db @ [\<lparr>v_boutique_id = bid, v_produit_id = p_id p, v_quantite = q,
                               v_prix_unitaire = p_prix_unitaire p,
                               v_montant_total = q * p_prix_unitaire p\<rparr>]
          \<and> snd (chatbot_auto_record e now bid data db result)
              = Inr (dict_set
                       (dict_set result (u ''response'')
                          (JStr (noted (language data = u ''en'')
                                   (tx_msg_vente (language data = u ''en'') q (p_nom p)
                                      (q * p_prix_unitaire p)) 128170)))
                       (u ''transaction_recorded'')
                       (recorded (u ''vente'')
                          [(u ''produit'', JStr (p_nom p)), (u ''quantite'', JInt q),
                           (u ''montant'', JInt (q * p_prix_unitaire p))]
                          (tx_msg_vente (language data = u ''en'') q (p_nom p)
                             (q * p_prix_unitaire p))))))
   \<and> (ventes (fst (chatbot_auto_record e now bid data db result)) = ventes db \<longrightarrow>
        produits (fst (chatbot_auto_record e now bid data db result)) = produits db)"
proof (intro conjI impI)
  assume a: "ventes (fst (chatbot_auto_record e now bid data db result)) \<noteq> ventes db"
  from sale_recorded_cases[OF a] obtain nom p q where
    r: "resolve_produit e db bid nom = Some p" and q: "1 \<le> q" "q \<le> p_quantite_stock p"
    and f: "fst (chatbot_auto_record e now bid data db result)
            = t_db (commit_vente (language data = u ''en'') e bid (initial_turn db result) nom p q)"
    and c: "snd (chatbot_auto_record e now bid data db result)
            = compose_reply
                (commit_vente (language data = u ''en'') e bid (initial_turn db result) nom p q)"
    by blast
  from r have "find (produit_filter e bid nom) (produits db) = Some p"
    by (simp add: resolve_produit_def)
  from update_first_find[OF this] obtain i where
    i: "i < length (produits db)" "produits db ! i = p"
       "update_first (produit_filter e bid nom)
          (\<lambda>p. p\<lparr>p_quantite_stock := p_quantite_stock p - q\<rparr>) (produits db)
        = (produits db)[i := p\<lparr>p_quantite_stock := p_quantite_stock p - q\<rparr>]"
    by blast
  show "\<exists>nom p q i.
          resolve_produit e db bid nom = Some p \<and> 1 \<le> q \<and> q \<le> p_quantite_stock p
          \<and> i < length (produits db) \<and> produits db ! i = p
          \<and> produits (fst (chatbot_auto_record e now bid data db result))
              = (produits db)[i := p\<lparr>p_quantite_stock := p_quantite_stock p - q\<rparr>]
          \<and> 0 \<le> p_quantite_stock p - q
          \<and> ventes (fst (chatbot_auto_record e now bid data db result))
              = ventes db @ [\<lparr>v_boutique_id = bid, v_produit_id = p_id p, v_quantite = q,
                               v_prix_unitaire = p_prix_unitaire p,
                               v_montant_total = q * p_prix_unitaire p\<rparr>]
          \<and> snd (chatbot_auto_record e now bid data db result)
              = Inr (dict_set
                       (dict_set result (u ''response'')
                          (JStr (noted (language data = u ''en'')
                                   (tx_msg_vente (language data = u ''en'') q (p_nom p)
                                      (q * p_prix_unitaire p)) 128170)))
                       (u ''transaction_recorded'')
                       (recorded (u ''vente'')
                          [(u ''produit'', JStr (p_nom p)), (u ''quantite'', JInt q),
                           (u ''montant'', JInt (q * p_prix_unitaire p))]
                          (tx_msg_vente (language data = u ''en'') q (p_nom p)
                             (q * p_prix_unitaire p))))"
    using r q i f c
    by (intro exI[of _ nom] exI[of _ p] exI[of _ q] exI[of _ i])
       (simp add: db_commit_vente compose_commit_vente)
next
  assume "ventes (fst (chatbot_auto_record e now bid data db result)) = ventes db"
  then show "produits (fst (chatbot_auto_record e now bid data db result)) = produits db"
    by (rule ventes_same_produits_same)
qed

theorem sale_stock_decrement_witness:
  "ventes (fst (chatbot_auto_record (stub_env (sale_intent (u ''riz'') (JInt 2))) 0 (u ''b1'')
                  request_en (riz_db 10) reply)) \<noteq> ventes (riz_db 10)
   \<and> map p_quantite_stock (produits (riz_db 10)) = [10]
   \<and> map p_quantite_stock
        (produits (fst (chatbot_auto_record (stub_env (sale_intent (u ''riz'') (JInt 2))) 0 (u ''b1'')
                  request_en (riz_db 10) reply))) = [10 - 2]"
  using sale_stock_decrement
    [of "stub_env (sale_intent (u ''riz'') (JInt 2))" 0 "u ''b1''" request_en "riz_db 10" reply]
  by (simp add: sale_scenario_int sale_outcome_def riz_db_sel riz_sel)

text \<open>
  Claim C2 as stated fails on the clause about the confirmation: in the sale scenario the
  stock after the commit is 8, and the response (the confirmation text and the
  \<open>transaction_recorded\<close> descriptor, given here in full) shows no stock: its numbers are
  the quantity 2 and the total 30000.
\<close>

theorem sale_confirmation_has_no_stock:
  "map p_quantite_stock
     (produits (fst (chatbot_auto_record (stub_env (sale_intent (u ''riz'') (JInt 2))) 0 (u ''b1'')
                  request_en (riz_db 10) reply))) = [8]
   \<and> snd (chatbot_auto_record (stub_env (sale_intent (u ''riz'') (JInt 2))) 0 (u ''b1'')
                  request_en (riz_db 10) reply)
     = Inr [(u ''response'', JStr (u ''Got it! Sale recorded: 2x riz = 30 000 FCFA '' @ [128170])),
            (u ''suggestions'', JList []),
            (u ''transaction_recorded'',
             JDict [(u ''type'', JStr (u ''vente'')),
                    (u ''details'', JDict [(u ''produit'', JStr (u ''riz'')), (u ''quantite'', JInt 2),
                                           (u ''montant'', JInt 30000)]),
                    (u ''success'', JBool True),
                    (u ''message'', JStr (u ''Sale recorded: 2x riz = 30 000 FCFA''))])]
   \<and> \<not> contains_str (u ''Got it! Sale recorded: 2x riz = 30 000 FCFA '' @ [128170]) (str_int 8)"
  by (simp add: sale_scenario_int sale_outcome_def riz_sel str_int_def str_nat.simps)
     (simp add: u_def startswith_def)




section \<open>The entity resolver\<close>

text \<open>
  For a plain name (ASCII, without \<open>%\<close>, \<open>_\<close> and NUL, and short enough for a pattern) the
  pattern \<open>%name%\<close> matches exactly the product names that contain the name before their
  first NUL, the ASCII letters compared without case, and the query returns the first such
  active, non-deleted product of the shop in the order of the table.  The two feedback
  texts differ in their first letter.
\<close>

lemma sql_like_percent_all: "sql_like [37] s"
  by (induction s) auto

lemma sql_like_prefix:
  assumes "wildcard_free ps"
  shows "sql_like (ps @ [37]) s \<longleftrightarrow> startswith (map ascii_lower s) (map ascii_lower ps)"
  using assms
proof (induction ps arbitrary: s)
  case Nil
  show ?case by (simp add: sql_like_percent_all startswith_def)
next
  case (Cons p ps)
  then have wf: "wildcard_free ps" and p: "p \<noteq> 37" "p \<noteq> 95"
    by (auto simp: wildcard_free_def)
  show ?case
  proof (cases s)
    case Nil
    with p show ?thesis by (simp add: startswith_def)
  next
    case (Cons c cs)
    with p Cons.IH[OF wf, of cs] show ?thesis
      by (auto simp: startswith_def)
  qed
qed

lemma sql_like_contains:
  assumes "wildcard_free ps"
  shows "sql_like (37 # ps @ [37]) s \<longleftrightarrow> contains_str (map ascii_lower s) (map ascii_lower ps)"
proof (induction s)
  case Nil
  show ?case
    using sql_like_prefix[OF assms, of "[]"] by (cases ps) (auto simp: startswith_def)
next
  case (Cons c cs)
  have "sql_like (37 # ps @ [37]) (c # cs)
        \<longleftrightarrow> sql_like (ps @ [37]) (c # cs) \<or> sql_like (37 # ps @ [37]) cs"
    by simp
  with Cons sql_like_prefix[OF assms, of "c # cs"] show ?case
    by simp
qed

lemma ascii_lower_idem: "ascii_lower (ascii_lower c) = ascii_lower c"
  by (simp add: ascii_lower_def)

lemma wildcard_free_lower: "wildcard_free s \<Longrightarrow> wildcard_free (map ascii_lower s)"
  by (auto simp: wildcard_free_def ascii_lower_def)

lemma ascii_lower_zero: "ascii_lower c = 0 \<longleftrightarrow> c = 0"
  by (simp add: ascii_lower_def)

lemma cut_pattern:
  assumes "0 \<notin> set nom"
  shows "takeWhile (\<lambda>c. c \<noteq> 0) (37 # map ascii_lower nom @ [37]) = 37 # map ascii_lower nom @ [37]"
proof -
  have "\<forall>c \<in> set (37 # map ascii_lower nom @ [37]). c \<noteq> 0"
  proof -
    have nz: "x \<noteq> 0" if "x \<in> set nom" for x
      using that assms by metis
    show ?thesis
      by (auto simp: ascii_lower_def dest: nz)
  qed
  then show ?thesis by (simp only: takeWhile_eq_all_conv)
qed

lemma cut_lower:
  "takeWhile (\<lambda>c. c \<noteq> 0) (map ascii_lower s) = map ascii_lower (takeWhile (\<lambda>c. c \<noteq> 0) s)"
  by (induction s) (auto simp: ascii_lower_zero)

lemma produit_filter_plain:
  assumes "list_all (\<lambda>c. c < 128) nom" "wildcard_free nom" "0 \<notin> set nom"
  shows "produit_filter e bid nom p
         \<longleftrightarrow> (p_boutique_id p = bid \<and> p_active p \<and> p_deleted_at p = None
              \<and> contains_str (map ascii_lower (takeWhile (\<lambda>c. c \<noteq> 0) (p_nom p)))
                    (map ascii_lower nom))"
proof -
  have low: "py_lower e nom = map ascii_lower nom"
    using assms(1) by (simp add: py_lower_def)
  have "like (sqlite_lower (p_nom p)) ([37] @ py_lower e nom @ [37])
        = sql_like (takeWhile (\<lambda>c. c \<noteq> 0) (37 # map ascii_lower nom @ [37]))
            (takeWhile (\<lambda>c. c \<noteq> 0) (map ascii_lower (p_nom p)))"
    by (simp only: like_def low sqlite_lower_def append_Cons append_Nil)
  also have "\<dots> = sql_like (37 # map ascii_lower nom @ [37])
            (map ascii_lower (takeWhile (\<lambda>c. c \<noteq> 0) (p_nom p)))"
    by (simp only: cut_pattern[OF assms(3)] cut_lower)
  also have "\<dots> = contains_str (map ascii_lower (takeWhile (\<lambda>c. c \<noteq> 0) (p_nom p)))
                      (map ascii_lower nom)"
    using sql_like_contains[OF wildcard_free_lower[OF assms(2)],
        of "map ascii_lower (takeWhile (\<lambda>c. c \<noteq> 0) (p_nom p))"]
    by (simp add: ascii_lower_idem comp_def)
  finally show ?thesis
    by (auto simp: produit_filter_def)
qed

lemma utf8_length_ascii: "list_all (\<lambda>c. c < 128) s \<Longrightarrow> utf8_length s = length s"
  by (induction s) (auto simp: utf8_length_def utf8_size_def)

lemma query_produit_plain:
  assumes "list_all (\<lambda>c. c < 128) nom" "wildcard_free nom" "0 \<notin> set nom"
      and "length nom \<le> 49998"
  shows "query_produit e db bid nom
         = Inr (find (\<lambda>p. p_boutique_id p = bid \<and> p_active p \<and> p_deleted_at p = None
                           \<and> contains_str (map ascii_lower (takeWhile (\<lambda>c. c \<noteq> 0) (p_nom p)))
                                 (map ascii_lower nom))
                  (produits db))"
proof -
  have f: "produit_filter e bid nom
        = (\<lambda>p. p_boutique_id p = bid \<and> p_active p \<and> p_deleted_at p = None
                 \<and> contains_str (map ascii_lower (takeWhile (\<lambda>c. c \<noteq> 0) (p_nom p)))
                       (map ascii_lower nom))"
    by (rule ext) (rule produit_filter_plain[OF assms(1-3)])
  have low: "py_lower e nom = map ascii_lower nom"
    using assms(1) by (simp add: py_lower_def)
  have ascii: "list_all (\<lambda>c. c < 128) (37 # map ascii_lower nom @ [37])"
    using assms(1) by (auto simp: list_all_iff ascii_lower_def)
  have enc: "utf8_encodable (37 # map ascii_lower nom @ [37])"
    using ascii by (auto simp: utf8_encodable_def list_all_iff)
  have len: "utf8_length (37 # map ascii_lower nom @ [37]) \<le> 50000"
    using utf8_length_ascii[OF ascii] assms(4) by simp
  show ?thesis
    using enc len by (simp add: query_produit_def Let_def low resolve_produit_def f)
qed

lemma feedback_texts_differ: "fb_non_trouve b nom \<noteq> fb_stock_insuffisant b' nom' stock"
  by (simp add: fb_non_trouve_def fb_stock_insuffisant_def u_def)

text \<open>
  Claim C5.  The extracted name \<open>"%%"\<close> is not contained in \<open>"riz"\<close>, yet the resolver
  returns the product \<open>riz\<close> for it (in \<open>LIKE\<close>, \<open>%\<close> is a wildcard, and the name goes into
  the pattern as it is), and the turn records a sale of rice.
\<close>

theorem wildcard_name_resolves_product:
  "\<not> contains_str (sqlite_lower (u ''riz'')) (u ''%%'')
   \<and> resolve_produit (stub_env (sale_intent (u ''%%'') (JInt 2))) (riz_db 10) (u ''b1'') (u ''%%'')
     = Some (riz 10)
   \<and> chatbot_auto_record (stub_env (sale_intent (u ''%%'') (JInt 2))) 0 (u ''b1'') request_en
       (riz_db 10) reply = sale_outcome"
  by (simp add: sale_scenario_wild resolve_produit_def riz_db_sel filter_wild)
     (simp add: u_def sqlite_lower_def ascii_lower_def startswith_def)

section \<open>Debts\<close>




end
